theory Spec2Isabelle
  imports Main
begin

section \<open>Values, exceptions and calls to the outside world\<close>

text \<open>
  The driver (\<^verbatim>\<open>novadocker/virt/docker/driver.py\<close>) talks to a container engine over
  HTTP and gets JSON back. The replies are dynamically typed, so they are modelled as
  Python values; truthiness, indexing and slicing follow Python.
\<close>

datatype pyval =
    PNone
  | PBool bool
  | PInt int
  | PStr string
  | PList "pyval list"
  | PDict "(string \<times> pyval) list"

fun truthy :: "pyval \<Rightarrow> bool" where
  "truthy PNone = False"
| "truthy (PBool b) = b"
| "truthy (PInt i) = (i \<noteq> 0)"
| "truthy (PStr s) = (s \<noteq> [])"
| "truthy (PList xs) = (xs \<noteq> [])"
| "truthy (PDict d) = (d \<noteq> [])"

text \<open>
  Exceptions. A message built with \<^verbatim>\<open>msg.format(x)\<close> is kept as the template and its
  argument (\<open>FmtVal\<close>, \<open>FmtExc\<close>), so that an exception that wraps another one still
  holds the wrapped one.
\<close>

datatype exc =
    APIError int string
  | SocketError
  | ExecutionError string
  | IOError string
  | IndexError
  | KeyError string
  | TypeError string
  | AttributeError string
  | UnboundLocalError string
  | RuntimeError msg
  | InstanceNotFound string
  | InstanceDeployFailure msg string
  | NovaException msg string
  | InstanceFaultRollback exc
  | ResizeError string
and msg =
    Lit string
  | Raw pyval
  | FmtVal string pyval
  | FmtExc string exc

text \<open>
  The calls that leave the driver in the functions modelled here: the engine client
  (\<^verbatim>\<open>self.docker\<close>), the VIF driver, host commands (\<^verbatim>\<open>utils.execute\<close>), the
  filesystem, the clock, the network teardown and the CPU allocation map. Two engine calls
  of functions not modelled here are listed with them, since they change containers:
  \<open>Docker_create_container\<close> (image and container name; of \<^verbatim>\<open>_create_container\<close>) and
  \<open>Docker_pause\<close>. \<open>Docker_create_volume_container\<close> is the create call of
  \<^verbatim>\<open>_create_volume_containers\<close>: image, name, \<^verbatim>\<open>network_disabled\<close>, volumes, binds.
  \<open>Docker_update_start\<close> carries the container id, memory limit, DNS list, CPU shares,
  CPU set and \<^verbatim>\<open>volumes_from\<close>; \<open>Docker_remove_container\<close> the id, \<^verbatim>\<open>force\<close> and
  \<^verbatim>\<open>v\<close>; \<open>Docker_containers\<close> the name filter, if any (\<^verbatim>\<open>all=True\<close> always).
\<close>

datatype call =
    Docker_containers "string option"
  | Docker_inspect_container pyval
  | Docker_create_container string string
  | Docker_create_volume_container string string bool "string list" "string list"
  | Docker_update_start pyval int "string list option" "int option" pyval "string option"
  | Docker_stop pyval int
  | Docker_unpause pyval
  | Docker_pause pyval
  | Docker_kill pyval
  | Docker_remove_container pyval bool bool
  | Docker_commit pyval string string
  | Docker_get_image string
  | Docker_remove_image string
  | Vif_plug string pyval
  | Vif_unplug string pyval
  | Vif_attach string pyval pyval
  | Teardown_network pyval
  | Execute "msg list"
  | Path_exists string
  | Path_isdir string
  | Rmtree string
  | File_open_w string
  | File_write string pyval
  | File_close string
  | Copy_image string string string
  | Cpuset_get_map string
  | Cpuset_less_set_cpus string int
  | Cpuset_get_unsystem_cpu string
  | Sleep nat

text \<open>
  The outside world is an oracle: given the calls made so far and the next call, it
  answers with a value or raises. A program threads the list of calls made and either
  returns a value or raises.
\<close>

type_synonym world = "call list \<Rightarrow> call \<Rightarrow> exc + pyval"

type_synonym 'a prog = "call list \<Rightarrow> (exc + 'a) \<times> call list"

definition return :: "'a \<Rightarrow> 'a prog" where
  "return x tr = (Inr x, tr)"

definition raise :: "exc \<Rightarrow> 'a prog" where
  "raise e tr = (Inl e, tr)"

definition lift :: "exc + 'a \<Rightarrow> 'a prog" where
  "lift r tr = (r, tr)"

definition bind :: "'a prog \<Rightarrow> ('a \<Rightarrow> 'b prog) \<Rightarrow> 'b prog" where
  "bind m f tr = (case m tr of (Inl e, tr') \<Rightarrow> (Inl e, tr') | (Inr x, tr') \<Rightarrow> f x tr')"

definition catch :: "'a prog \<Rightarrow> (exc \<Rightarrow> 'a prog) \<Rightarrow> 'a prog" where
  "catch m h tr = (case m tr of (Inl e, tr') \<Rightarrow> h e tr' | (Inr x, tr') \<Rightarrow> (Inr x, tr'))"

definition perform :: "world \<Rightarrow> call \<Rightarrow> pyval prog" where
  "perform env c tr = (env tr c, tr @ [c])"

definition sbind :: "exc + 'a \<Rightarrow> ('a \<Rightarrow> exc + 'b) \<Rightarrow> exc + 'b" where
  "sbind r f = (case r of Inl e \<Rightarrow> Inl e | Inr x \<Rightarrow> f x)"

subsection \<open>Python operations on values\<close>

text \<open>\<^verbatim>\<open>d.get(k, default)\<close>\<close>

fun py_get :: "pyval \<Rightarrow> string \<Rightarrow> pyval \<Rightarrow> exc + pyval" where
  "py_get (PDict d) k dflt = Inr (case map_of d k of None \<Rightarrow> dflt | Some v \<Rightarrow> v)"
| "py_get _ k dflt = Inl (AttributeError ''get'')"

text \<open>Position \<open>i\<close> of a sequence; \<open>-1\<close> is the last position.\<close>

definition py_nth :: "'a list \<Rightarrow> int \<Rightarrow> exc + 'a" where
  "py_nth xs i =
     (if 0 \<le> i \<and> i < int (length xs) then Inr (xs ! nat i)
      else if i < 0 \<and> - int (length xs) \<le> i then Inr (xs ! nat (int (length xs) + i))
      else Inl IndexError)"

text \<open>\<^verbatim>\<open>x[k]\<close>\<close>

fun py_getitem :: "pyval \<Rightarrow> pyval \<Rightarrow> exc + pyval" where
  "py_getitem (PDict d) (PStr k) =
     (case map_of d k of None \<Rightarrow> Inl (KeyError k) | Some v \<Rightarrow> Inr v)"
| "py_getitem (PList xs) (PInt i) = py_nth xs i"
| "py_getitem (PStr s) (PInt i) = sbind (py_nth s i) (\<lambda>c. Inr (PStr [c]))"
| "py_getitem _ _ = Inl (TypeError ''getitem'')"

text \<open>\<^verbatim>\<open>x[n:]\<close>\<close>

fun py_slice_from :: "nat \<Rightarrow> pyval \<Rightarrow> exc + pyval" where
  "py_slice_from n (PStr s) = Inr (PStr (drop n s))"
| "py_slice_from n (PList xs) = Inr (PList (drop n xs))"
| "py_slice_from n _ = Inl (TypeError ''slice'')"

text \<open>\<^verbatim>\<open>for x in v\<close>: the elements of a list, the keys of a dict, the characters of a string.\<close>

fun py_iter :: "pyval \<Rightarrow> exc + pyval list" where
  "py_iter (PList xs) = Inr xs"
| "py_iter (PDict d) = Inr (map (\<lambda>kv. PStr (fst kv)) d)"
| "py_iter (PStr s) = Inr (map (\<lambda>c. PStr [c]) s)"
| "py_iter _ = Inl (TypeError ''not iterable'')"

text \<open>\<^verbatim>\<open>a + b\<close> on strings\<close>

fun py_add :: "pyval \<Rightarrow> pyval \<Rightarrow> exc + pyval" where
  "py_add (PStr a) (PStr b) = Inr (PStr (a @ b))"
| "py_add _ _ = Inl (TypeError ''add'')"

text \<open>\<^verbatim>\<open>x / 1024\<close> (Python 2: floor division on integers)\<close>

fun py_div :: "pyval \<Rightarrow> int \<Rightarrow> exc + pyval" where
  "py_div (PInt i) k = Inr (PInt (i div k))"
| "py_div (PBool b) k = Inr (PInt ((if b then 1 else 0) div k))"
| "py_div _ k = Inl (TypeError ''div'')"

section \<open>Instances, flavors, configuration\<close>

record flavor =
  vcpus :: int
  memory_mb :: int
  root_gb :: int
  ephemeral_gb :: int

text \<open>
  \<open>is_object\<close> is \<^verbatim>\<open>isinstance(instance, objects.Instance)\<close>; \<open>inst_flavor\<close> is what
  \<^verbatim>\<open>flavors.extract_flavor(instance)\<close> and \<^verbatim>\<open>instance.get_flavor()\<close> give;
  \<open>instance_type_memory_mb\<close> is the integer under that key of the system metadata.
\<close>

record nova_instance =
  inst_name :: string
  inst_hostname :: string
  inst_uuid :: string
  inst_root_gb :: int
  inst_ephemeral_gb :: int
  inst_flavor :: flavor
  is_object :: bool
  instance_type_memory_mb :: "int option"

record conf =
  docker_cpu_mode :: string
  docker_system_cpuset :: string
  dir_volume_path :: string
  snapshots_directory :: string
  delete_migration_source :: bool

text \<open>Image metadata: a dict whose \<^verbatim>\<open>properties\<close> entry, when present, maps strings to strings.\<close>

record image_meta =
  im_name :: string
  im_id :: string
  container_format :: string
  properties :: "(string \<times> string) list option"

datatype power_state = RUNNING | SHUTDOWN

record info =
  max_mem :: pyval
  mem :: pyval
  num_cpu :: pyval
  cpu_time :: int
  state :: power_state

section \<open>Identity resolver\<close>

text \<open>\<^verbatim>\<open>ct['Names'][0][1:]\<close>\<close>

definition stripped_name :: "pyval \<Rightarrow> exc + pyval" where
  "stripped_name ct =
     sbind (py_getitem ct (PStr ''Names'')) (\<lambda>names.
     sbind (py_getitem names (PInt 0)) (\<lambda>n0.
     py_slice_from 1 n0))"

text \<open>
  The body of the \<^verbatim>\<open>for ct in containers\<close> loop of \<^verbatim>\<open>_find_container_by_name\<close>:
  \<open>Some r\<close> is the \<^verbatim>\<open>return\<close> inside the loop, \<open>None\<close> is the loop running out.
\<close>

fun find_loop :: "world \<Rightarrow> string \<Rightarrow> pyval list \<Rightarrow> (pyval option) prog" where
  "find_loop env name [] = return None"
| "find_loop env name (ct # cts) =
     (if truthy ct then
        bind (lift (stripped_name ct)) (\<lambda>n.
          if n = PStr name then
            bind (lift (py_getitem ct (PStr ''Id''))) (\<lambda>i.
            bind (perform env (Docker_inspect_container i)) (\<lambda>r.
            return (Some r)))
          else find_loop env name cts)
      else find_loop env name cts)"

definition find_container_by_name :: "world \<Rightarrow> string \<Rightarrow> pyval prog" where
  "find_container_by_name env name =
     catch
       (bind (perform env (Docker_containers (Some name))) (\<lambda>containers.
        bind (lift (py_iter containers)) (\<lambda>cts.
        bind (find_loop env name cts) (\<lambda>found.
        case found of Some r \<Rightarrow> return r | None \<Rightarrow> return (PDict [])))))
       (\<lambda>e. case e of
          APIError status_code explanation \<Rightarrow>
            if status_code \<noteq> 404 then raise e else return (PDict [])
        | _ \<Rightarrow> raise e)"

definition get_container_id :: "world \<Rightarrow> nova_instance \<Rightarrow> pyval prog" where
  "get_container_id env instance =
     bind (find_container_by_name env (inst_name instance)) (\<lambda>c.
     lift (py_get c ''Id'' PNone))"

definition get_info :: "world \<Rightarrow> nova_instance \<Rightarrow> info prog" where
  "get_info env instance =
     bind (find_container_by_name env (inst_name instance)) (\<lambda>container.
     if \<not> truthy container then raise (InstanceNotFound (inst_name instance))
     else
       bind (lift (sbind (py_getitem container (PStr ''State''))
                     (\<lambda>s. py_get s ''Running'' PNone))) (\<lambda>running.
       bind (lift (sbind (py_getitem container (PStr ''Config''))
                     (\<lambda>c. py_get c ''Memory'' (PInt 0)))) (\<lambda>mem.
       bind (lift (sbind (py_getitem container (PStr ''Config''))
                     (\<lambda>c. sbind (py_get c ''CpuShares'' (PInt 0))
                     (\<lambda>s. py_div s 1024)))) (\<lambda>num_cpu.
       return \<lparr> max_mem = mem, mem = mem, num_cpu = num_cpu, cpu_time = 0,
                state = (if truthy running then RUNNING else SHUTDOWN) \<rparr>))))"

section \<open>Resource allocation planner\<close>

definition get_cpu_shares :: "conf \<Rightarrow> nova_instance \<Rightarrow> int option" where
  "get_cpu_shares cfg instance =
     (let cpu_mode = docker_cpu_mode cfg in
      if cpu_mode = ''cpuset'' \<or> cpu_mode = ''mix''
      then Some (vcpus (inst_flavor instance) * 1024)
      else None)"

text \<open>\<^verbatim>\<open>_get_memory_limit_bytes\<close>; \<^verbatim>\<open>units.Mi\<close> is \<open>2 ^ 20\<close>.\<close>

definition get_memory_limit_bytes :: "nova_instance \<Rightarrow> int" where
  "get_memory_limit_bytes instance =
     (if is_object instance then memory_mb (inst_flavor instance) * 1048576
      else (case instance_type_memory_mb instance of None \<Rightarrow> 0 | Some m \<Rightarrow> m) * 1048576)"

text \<open>
  The loop \<^verbatim>\<open>for cpu in ori_list[1:]: set_str = set_str + ',' + cpu[3:]\<close> of
  \<^verbatim>\<open>_get_cpu_set\<close>.
\<close>

fun join_loop :: "pyval \<Rightarrow> pyval list \<Rightarrow> exc + pyval" where
  "join_loop set_str [] = Inr set_str"
| "join_loop set_str (cpu # cpus) =
     sbind (py_add set_str (PStr '','')) (\<lambda>a.
     sbind (py_slice_from 3 cpu) (\<lambda>b.
     sbind (py_add a b) (\<lambda>set_str'. join_loop set_str' cpus)))"

text \<open>\<^verbatim>\<open>set_str = ori_list[0][3:]\<close>, then the loop.\<close>

definition join_cpus :: "pyval \<Rightarrow> exc + pyval" where
  "join_cpus ori_list =
     sbind (py_getitem ori_list (PInt 0)) (\<lambda>c0.
     sbind (py_slice_from 3 c0) (\<lambda>set_str.
     sbind (py_slice_from 1 ori_list) (\<lambda>rest.
     sbind (py_iter rest) (\<lambda>cpus. join_loop set_str cpus))))"

text \<open>
  \<^verbatim>\<open>_get_cpu_set\<close>. The CPU allocation map (\<^verbatim>\<open>cpuset_info.CpusetStatsMap\<close>) is a
  collaborator outside this file: its three methods are calls to the outside world, each
  carrying the system-reserved set the map was built with.
\<close>

definition get_cpu_set :: "world \<Rightarrow> conf \<Rightarrow> nova_instance \<Rightarrow> pyval prog" where
  "get_cpu_set env cfg instance =
     (let cpu_mode = docker_cpu_mode cfg; system_cpuset = docker_system_cpuset cfg in
      if cpu_mode = ''cpuset'' \<or> cpu_mode = ''mix'' then
        bind (perform env (Cpuset_get_map system_cpuset)) (\<lambda>_.
        bind (perform env (Cpuset_less_set_cpus system_cpuset (vcpus (inst_flavor instance))))
          (\<lambda>ori_list. lift (join_cpus ori_list)))
      else if system_cpuset \<noteq> ''-1'' then
        bind (perform env (Cpuset_get_unsystem_cpu system_cpuset))
          (\<lambda>ori_list. lift (join_cpus ori_list))
      else return PNone)"

section \<open>Network attachment sequencer\<close>

text \<open>
  \<^verbatim>\<open>network.find_dns\<close> and \<^verbatim>\<open>network.find_first_ip\<close> live in a module outside this
  file; they are parameters.
\<close>

record helpers =
  find_dns :: "pyval \<Rightarrow> exc + string list"
  find_first_ip :: "nova_instance \<Rightarrow> pyval \<Rightarrow> exc + pyval"

text \<open>\<^verbatim>\<open>time.sleep(s)\<close> returns nothing and is recorded.\<close>

definition sleep :: "nat \<Rightarrow> unit prog" where
  "sleep s tr = (Inr (), tr @ [Sleep s])"

fun plug_loop :: "world \<Rightarrow> nova_instance \<Rightarrow> pyval list \<Rightarrow> unit prog" where
  "plug_loop env instance [] = return ()"
| "plug_loop env instance (vif # vifs) =
     bind (perform env (Vif_plug (inst_name instance) vif)) (\<lambda>_. plug_loop env instance vifs)"

definition plug_vifs :: "world \<Rightarrow> nova_instance \<Rightarrow> pyval \<Rightarrow> unit prog" where
  "plug_vifs env instance network_info =
     bind (lift (py_iter network_info)) (\<lambda>vifs. plug_loop env instance vifs)"

fun unplug_loop :: "world \<Rightarrow> nova_instance \<Rightarrow> pyval list \<Rightarrow> unit prog" where
  "unplug_loop env instance [] = return ()"
| "unplug_loop env instance (vif # vifs) =
     bind (perform env (Vif_unplug (inst_name instance) vif)) (\<lambda>_. unplug_loop env instance vifs)"

definition unplug_vifs :: "world \<Rightarrow> nova_instance \<Rightarrow> pyval \<Rightarrow> unit prog" where
  "unplug_vifs env instance network_info =
     bind (lift (py_iter network_info)) (\<lambda>vifs. unplug_loop env instance vifs)"

fun attach_loop :: "world \<Rightarrow> nova_instance \<Rightarrow> pyval \<Rightarrow> pyval list \<Rightarrow> unit prog" where
  "attach_loop env instance container_id [] = return ()"
| "attach_loop env instance container_id (vif # vifs) =
     bind (perform env (Vif_attach (inst_name instance) vif container_id))
       (\<lambda>_. attach_loop env instance container_id vifs)"

text \<open>
  \<^verbatim>\<open>_find_container_pid\<close>: the \<^verbatim>\<open>while True\<close> loop, with its counter \<open>n\<close> as the
  argument. The counter goes up and the loop leaves when it is above 15.
\<close>

function find_container_pid_from :: "world \<Rightarrow> pyval \<Rightarrow> nat \<Rightarrow> pyval prog" where
  "find_container_pid_from env container_id n =
     (if n > 15 then return PNone
      else
        bind (perform env (Docker_inspect_container container_id)) (\<lambda>info.
        if truthy info then
          bind (lift (sbind (py_getitem info (PStr ''State''))
                        (\<lambda>st. py_getitem st (PStr ''Pid'')))) (\<lambda>pid.
          if truthy pid then return pid
          else bind (sleep 1) (\<lambda>_. find_container_pid_from env container_id (n + 1)))
        else bind (sleep 1) (\<lambda>_. find_container_pid_from env container_id (n + 1))))"
  by pat_completeness auto
termination
  by (relation "measure (\<lambda>(env, container_id, n). 16 - n)") auto

declare find_container_pid_from.simps [simp del]

definition find_container_pid :: "world \<Rightarrow> pyval \<Rightarrow> pyval prog" where
  "find_container_pid env container_id = find_container_pid_from env container_id 0"

text \<open>\<^verbatim>\<open>os.path.join(netns_path, container_id)\<close> needs a string.\<close>

definition path_join :: "string \<Rightarrow> pyval \<Rightarrow> exc + string" where
  "path_join a b =
     (case b of
        PStr s \<Rightarrow> Inr (if s \<noteq> [] \<and> hd s = CHR ''/'' then s else a @ ''/'' @ s)
      | _ \<Rightarrow> Inl (AttributeError ''startswith''))"

text \<open>The message template \<^verbatim>\<open>Cannot find any PID under container "{0}"\<close>.\<close>

definition cannot_find_pid :: string where
  "cannot_find_pid = ''Cannot find any PID under container '' @ [CHR 0x22] @ ''{0}'' @ [CHR 0x22]"

definition attach_vifs :: "world \<Rightarrow> nova_instance \<Rightarrow> pyval \<Rightarrow> unit prog" where
  "attach_vifs env instance network_info =
     (if \<not> truthy network_info then return ()
      else
        bind (get_container_id env instance) (\<lambda>container_id.
        if \<not> truthy container_id then return ()
        else
          bind (perform env (Path_exists ''/var/run/netns'')) (\<lambda>ex.
          bind (if \<not> truthy ex
                then perform env (Execute [Lit ''mkdir'', Lit ''-p'', Lit ''/var/run/netns''])
                else return PNone) (\<lambda>_.
          bind (find_container_pid env container_id) (\<lambda>nspid.
          if \<not> truthy nspid
          then raise (RuntimeError (FmtVal cannot_find_pid container_id))
          else
            bind (lift (path_join ''/var/run/netns'' container_id)) (\<lambda>netns_path.
            bind (perform env (Execute [Lit ''ln'', Lit ''-sf'',
                    FmtVal ''/proc/{0}/ns/net'' nspid,
                    FmtVal ''/var/run/netns/{0}'' container_id])) (\<lambda>_.
            bind (perform env (Execute [Lit ''ip'', Lit ''netns'', Lit ''exec'',
                    Raw container_id, Lit ''ip'', Lit ''link'', Lit ''set'', Lit ''lo'',
                    Lit ''up''])) (\<lambda>_.
            bind (lift (py_iter network_info)) (\<lambda>vifs.
            attach_loop env instance container_id vifs)))))))))"

section \<open>Volume container manager\<close>

text \<open>The loop of \<^verbatim>\<open>_exist_container\<close>.\<close>

fun exist_loop :: "string \<Rightarrow> pyval list \<Rightarrow> exc + bool" where
  "exist_loop container_name [] = Inr False"
| "exist_loop container_name (container # cs) =
     sbind (stripped_name container) (\<lambda>n.
     if n = PStr container_name then Inr True else exist_loop container_name cs)"

definition exist_container :: "world \<Rightarrow> string \<Rightarrow> bool prog" where
  "exist_container env container_name =
     bind (perform env (Docker_containers None)) (\<lambda>containers.
     bind (lift (py_iter containers)) (\<lambda>cs.
     lift (exist_loop container_name cs)))"

record dir_volume =
  log_volume :: "string option"
  data_volume :: "string option"
  other_volume :: "string option"

text \<open>
  \<^verbatim>\<open>image_meta.get('properties', {}).get(key)\<close> when it is truthy: a non-empty string.
\<close>

definition declared :: "image_meta \<Rightarrow> string \<Rightarrow> string option" where
  "declared image_meta key =
     (case map_of (case properties image_meta of None \<Rightarrow> [] | Some p \<Rightarrow> p) key of
        None \<Rightarrow> None
      | Some v \<Rightarrow> if v \<noteq> [] then Some v else None)"

definition get_dir_volume :: "image_meta option \<Rightarrow> dir_volume" where
  "get_dir_volume image_meta =
     (case image_meta of
        None \<Rightarrow> \<lparr> log_volume = None, data_volume = None, other_volume = None \<rparr>
      | Some im \<Rightarrow>
          \<lparr> log_volume = declared im ''log_volume'',
            data_volume = declared im ''data_volume'',
            other_volume = declared im ''other_volume'' \<rparr>)"

text \<open>\<^verbatim>\<open>s + v\<close> where \<open>s\<close> is a string: \<open>v\<close> must be one too.\<close>

definition str_add :: "string \<Rightarrow> pyval \<Rightarrow> exc + string" where
  "str_add s v = (case v of PStr t \<Rightarrow> Inr (s @ t) | _ \<Rightarrow> Inl (TypeError ''add''))"

text \<open>Truthiness of a volume declaration: absent and empty are false.\<close>

definition opt_truthy :: "string option \<Rightarrow> bool" where
  "opt_truthy v = (case v of None \<Rightarrow> False | Some s \<Rightarrow> s \<noteq> [])"

text \<open>
  One of the three \<^verbatim>\<open>if <role>_volume:\<close> blocks of \<^verbatim>\<open>_create_volume_containers\<close>:
  it appends to \<open>all_volumes\<close> and \<open>all_binds\<close>.
\<close>

definition add_volume ::
  "string \<Rightarrow> string \<Rightarrow> string \<Rightarrow> pyval \<Rightarrow> string option \<Rightarrow> string list \<times> string list
     \<Rightarrow> exc + string list \<times> string list" where
  "add_volume host_dir role nova_name first_ip volume acc =
     (if opt_truthy volume then
        sbind (str_add (host_dir @ ''/'' @ role @ ''/'' @ nova_name @ ''_'') first_ip)
          (\<lambda>role_host_dir.
             Inr (fst acc @ [the volume], snd acc @ [role_host_dir @ '':'' @ the volume]))
      else Inr acc)"

definition create_volume_containers ::
  "world \<Rightarrow> helpers \<Rightarrow> conf \<Rightarrow> nova_instance \<Rightarrow> string \<Rightarrow> image_meta option \<Rightarrow> pyval
     \<Rightarrow> bool prog" where
  "create_volume_containers env hp cfg instance image_name image_meta network_info =
     (let dir_volumes = get_dir_volume image_meta in
      if \<not> opt_truthy (log_volume dir_volumes) \<and> \<not> opt_truthy (data_volume dir_volumes)
         \<and> \<not> opt_truthy (other_volume dir_volumes)
      then return False
      else
        bind (lift (find_first_ip hp instance network_info)) (\<lambda>first_ip.
        let nova_name = inst_name instance;
            vol_ct_name = nova_name @ ''_vol'';
            host_dir = dir_volume_path cfg
        in
        bind (lift (
          sbind (add_volume host_dir ''log'' nova_name first_ip (log_volume dir_volumes) ([], []))
            (\<lambda>acc1.
          sbind (add_volume host_dir ''data'' nova_name first_ip (data_volume dir_volumes) acc1)
            (\<lambda>acc2.
          add_volume host_dir ''other'' nova_name first_ip (other_volume dir_volumes) acc2))))
          (\<lambda>acc.
        bind (perform env
               (Docker_create_volume_container image_name vol_ct_name True (fst acc) (snd acc)))
          (\<lambda>_. return True))))"

text \<open>\<^verbatim>\<open>if os.path.isdir(d): shutil.rmtree(d)\<close>\<close>

definition rmtree_if_isdir :: "world \<Rightarrow> string \<Rightarrow> unit prog" where
  "rmtree_if_isdir env d =
     bind (perform env (Path_isdir d)) (\<lambda>isdir.
     if truthy isdir then bind (perform env (Rmtree d)) (\<lambda>_. return ()) else return ())"

definition destroy_volume_container ::
  "world \<Rightarrow> helpers \<Rightarrow> conf \<Rightarrow> nova_instance \<Rightarrow> pyval \<Rightarrow> unit prog" where
  "destroy_volume_container env hp cfg instance network_info =
     (let nova_name = inst_name instance in
      bind (lift (find_first_ip hp instance network_info)) (\<lambda>first_ip.
      let vol_ct_name = nova_name @ ''_vol'' in
      bind (exist_container env vol_ct_name) (\<lambda>ex.
      if ex then
        bind (perform env (Docker_remove_container (PStr vol_ct_name) True True)) (\<lambda>_.
        let host_dir = dir_volume_path cfg in
        bind (lift (str_add (host_dir @ ''/log/'' @ nova_name @ ''_'') first_ip))
          (\<lambda>log_host_dir.
        bind (lift (str_add (host_dir @ ''/data/'' @ nova_name @ ''_'') first_ip))
          (\<lambda>data_host_dir.
        bind (lift (str_add (host_dir @ ''/other/'' @ nova_name @ ''_'') first_ip))
          (\<lambda>other_host_dir.
        bind (rmtree_if_isdir env log_host_dir) (\<lambda>_.
        bind (rmtree_if_isdir env data_host_dir) (\<lambda>_.
        rmtree_if_isdir env other_host_dir))))))
      else return ())))"

section \<open>Lifecycle state controller\<close>

definition start_container ::
  "world \<Rightarrow> helpers \<Rightarrow> conf \<Rightarrow> pyval \<Rightarrow> nova_instance \<Rightarrow> pyval \<Rightarrow> unit prog" where
  "start_container env hp cfg container_id instance network_info =
     (let mem_limit = get_memory_limit_bytes instance in
      bind (lift (find_dns hp network_info)) (\<lambda>dns.
      let dns_list = (if dns = [] then None else Some dns);
          cpu_shares = get_cpu_shares cfg instance
      in
      bind (get_cpu_set env cfg instance) (\<lambda>cpuset.
      let vol_ct_name = inst_name instance @ ''_vol'' in
      bind (exist_container env vol_ct_name) (\<lambda>ex.
      let volumes_from = (if ex then Some vol_ct_name else None) in
      bind (perform env (Docker_update_start container_id mem_limit dns_list cpu_shares
              cpuset volumes_from)) (\<lambda>_.
      if \<not> truthy network_info then return ()
      else
        catch
          (bind (plug_vifs env instance network_info) (\<lambda>_.
           attach_vifs env instance network_info))
          (\<lambda>e.
             bind (perform env (Docker_kill container_id)) (\<lambda>_.
             raise (InstanceDeployFailure (FmtExc ''Cannot setup network: {0}'' e)
                      (inst_name instance)))))))))"

text \<open>\<^verbatim>\<open>needle in haystack\<close> on strings.\<close>

fun contains :: "string \<Rightarrow> string \<Rightarrow> bool" where
  "contains needle [] = (needle = [])"
| "contains needle (c # cs) =
     (take (length needle) (c # cs) = needle \<or> contains needle cs)"

definition stop_container :: "world \<Rightarrow> pyval \<Rightarrow> nova_instance \<Rightarrow> int \<Rightarrow> unit prog" where
  "stop_container env container_id instance timeout =
     catch
       (bind (perform env (Docker_stop container_id (max timeout 5))) (\<lambda>_. return ()))
       (\<lambda>e. case e of
          APIError status_code explanation \<Rightarrow>
            if \<not> contains ''Unpause the container before stopping'' explanation
            then raise e
            else
              bind (perform env (Docker_unpause container_id)) (\<lambda>_.
              bind (perform env (Docker_stop container_id timeout)) (\<lambda>_. return ()))
        | _ \<Rightarrow> raise e)"

definition network_delete :: "world \<Rightarrow> nova_instance \<Rightarrow> pyval \<Rightarrow> pyval \<Rightarrow> unit prog" where
  "network_delete env instance network_info container_id =
     catch
       (bind (perform env (Teardown_network container_id)) (\<lambda>_.
        if truthy network_info then unplug_vifs env instance network_info else return ()))
       (\<lambda>e. return ())"

definition cleanup :: "world \<Rightarrow> nova_instance \<Rightarrow> pyval \<Rightarrow> unit prog" where
  "cleanup env instance network_info =
     bind (get_container_id env instance) (\<lambda>container_id.
     if \<not> truthy container_id then unplug_vifs env instance network_info
     else
       bind (perform env (Docker_remove_container container_id True False)) (\<lambda>_.
       network_delete env instance network_info container_id))"

definition destroy :: "world \<Rightarrow> helpers \<Rightarrow> conf \<Rightarrow> nova_instance \<Rightarrow> pyval \<Rightarrow> unit prog" where
  "destroy env hp cfg instance network_info =
     bind (get_container_id env instance) (\<lambda>container_id.
     if \<not> truthy container_id then return ()
     else
       bind (stop_container env container_id instance 10) (\<lambda>_.
       bind (cleanup env instance network_info) (\<lambda>_.
       destroy_volume_container env hp cfg instance network_info)))"

definition reboot :: "world \<Rightarrow> helpers \<Rightarrow> conf \<Rightarrow> nova_instance \<Rightarrow> pyval \<Rightarrow> unit prog" where
  "reboot env hp cfg instance network_info =
     bind (get_container_id env instance) (\<lambda>container_id.
     if \<not> truthy container_id then return ()
     else
       bind (stop_container env container_id instance 10) (\<lambda>_.
       bind (network_delete env instance network_info container_id) (\<lambda>_.
       start_container env hp cfg container_id instance network_info)))"

definition power_on :: "world \<Rightarrow> helpers \<Rightarrow> conf \<Rightarrow> nova_instance \<Rightarrow> pyval \<Rightarrow> unit prog" where
  "power_on env hp cfg instance network_info =
     bind (get_container_id env instance) (\<lambda>container_id.
     if \<not> truthy container_id then return ()
     else start_container env hp cfg container_id instance network_info)"

definition power_off :: "world \<Rightarrow> nova_instance \<Rightarrow> unit prog" where
  "power_off env instance =
     bind (get_container_id env instance) (\<lambda>container_id.
     if \<not> truthy container_id then return ()
     else stop_container env container_id instance 10)"

section \<open>Migration coordinator\<close>

definition cleanup_migration :: "world \<Rightarrow> string \<Rightarrow> string \<Rightarrow> unit prog" where
  "cleanup_migration env migrate_src image_name =
     catch
       (bind (perform env (Path_exists migrate_src)) (\<lambda>ex.
        bind (if truthy ex
              then perform env (Execute [Lit ''rm'', Lit ''-rf'', Lit migrate_src])
              else return PNone) (\<lambda>_.
        bind (perform env (Docker_remove_image image_name)) (\<lambda>_. return ()))))
       (\<lambda>e. return ())"

text \<open>
  How Python binds the arguments of a call to the parameters of a function without
  defaults, \<^verbatim>\<open>*args\<close> or \<^verbatim>\<open>**kwargs\<close>: the positional arguments fill the parameters
  from the left; a keyword argument must name a parameter that is not filled yet; in
  the end every parameter must be filled.
\<close>

fun bind_keywords ::
  "string list \<Rightarrow> (string \<times> 'a) list \<Rightarrow> (string \<times> 'a) list \<Rightarrow> exc + (string \<times> 'a) list" where
  "bind_keywords params bound [] = Inr bound"
| "bind_keywords params bound ((k, v) # kws) =
     (if k \<notin> set params then Inl (TypeError ''got an unexpected keyword argument'')
      else if k \<in> set (map fst bound)
      then Inl (TypeError ''got multiple values for keyword argument'')
      else bind_keywords params (bound @ [(k, v)]) kws)"

definition bind_args ::
  "string list \<Rightarrow> 'a list \<Rightarrow> (string \<times> 'a) list \<Rightarrow> exc + (string \<rightharpoonup> 'a)" where
  "bind_args params positional keywords =
     (if length positional > length params
      then Inl (TypeError ''takes exactly n arguments'')
      else
        sbind (bind_keywords params (zip params positional) keywords) (\<lambda>bound.
        if \<forall>p \<in> set params. p \<in> set (map fst bound)
        then Inr (map_of bound)
        else Inl (TypeError ''takes exactly n arguments'')))"

text \<open>
  A call of \<^verbatim>\<open>self._cleanup_migration\<close>, whose parameters after \<^verbatim>\<open>self\<close> are
  \<^verbatim>\<open>migrate_src\<close> and \<^verbatim>\<open>image_name\<close>.
\<close>

definition call_cleanup_migration ::
  "world \<Rightarrow> string list \<Rightarrow> (string \<times> string) list \<Rightarrow> unit prog" where
  "call_cleanup_migration env positional keywords =
     bind (lift (bind_args [''migrate_src'', ''image_name''] positional keywords)) (\<lambda>args.
     cleanup_migration env (the (args ''migrate_src'')) (the (args ''image_name'')))"

text \<open>
  \<^verbatim>\<open>with excutils.save_and_reraise_exception(): body\<close> inside an \<^verbatim>\<open>except\<close> block
  that caught \<open>e\<close>: when the body returns, \<open>e\<close> is raised again; when the body raises,
  \<open>e\<close> is dropped and the body's exception goes on.
\<close>

definition save_and_reraise_exception :: "exc \<Rightarrow> unit prog \<Rightarrow> 'a prog" where
  "save_and_reraise_exception e body tr =
     (case body tr of (Inl e', tr') \<Rightarrow> (Inl e', tr') | (Inr _, tr') \<Rightarrow> (Inl e, tr'))"

text \<open>
  The \<^verbatim>\<open>except Exception\<close> block of \<^verbatim>\<open>migrate_disk_and_power_off\<close>. The local
  \<^verbatim>\<open>image_tar_name\<close> is \<open>None\<close> while the \<^verbatim>\<open>try\<close> block has not assigned it; reading
  it then raises \<^verbatim>\<open>UnboundLocalError\<close>.
\<close>

definition migrate_handler ::
  "world \<Rightarrow> nova_instance \<Rightarrow> string \<Rightarrow> string option \<Rightarrow> exc \<Rightarrow> unit prog" where
  "migrate_handler env instance dest image_tar_name e =
     save_and_reraise_exception e
       (bind (lift (case image_tar_name of
                      None \<Rightarrow> Inl (UnboundLocalError ''image_tar_name'')
                    | Some t \<Rightarrow> Inr t)) (\<lambda>tar.
        call_cleanup_migration env [dest, tar] [(''image_name'', inst_name instance)]))"

text \<open>
  \<^verbatim>\<open>migrate_disk_and_power_off\<close>. The \<^verbatim>\<open>try\<close> block is written in two parts, before
  and after the assignment of \<^verbatim>\<open>image_tar_name\<close>, each with the same handler.
\<close>

definition migrate_disk_and_power_off ::
  "world \<Rightarrow> conf \<Rightarrow> nova_instance \<Rightarrow> string \<Rightarrow> flavor \<Rightarrow> pyval \<Rightarrow> unit prog" where
  "migrate_disk_and_power_off env cfg instance dest flavor network_info =
     bind (get_container_id env instance) (\<lambda>container_id.
     let snapshot_directory = snapshots_directory cfg;
         migrate_src = snapshot_directory @ ''/migrate_src/'';
         migrate_dest = snapshot_directory @ ''/migrate_dest/''
     in
     if root_gb flavor < inst_root_gb instance
     then raise (InstanceFaultRollback (ResizeError ''Unable to resize disk down.''))
     else if ephemeral_gb flavor < inst_ephemeral_gb instance
     then raise (InstanceFaultRollback (ResizeError ''Unable to resize disk down.''))
     else
       bind (catch
               (bind (perform env (Execute [Lit ''mkdir'', Lit ''-p'', Lit migrate_src])) (\<lambda>_.
                bind (perform env (Docker_commit container_id (inst_name instance) ''latest''))
                  (\<lambda>_.
                perform env (Docker_get_image (inst_name instance)))))
               (\<lambda>e. bind (migrate_handler env instance dest None e) (\<lambda>_. return PNone)))
         (\<lambda>image.
       let image_tar_name = migrate_src @ inst_name instance @ ''.tar'' in
       catch
         (bind (perform env (File_open_w image_tar_name)) (\<lambda>_.
          bind (perform env (File_write image_tar_name image)) (\<lambda>_.
          bind (perform env (File_close image_tar_name)) (\<lambda>_.
          bind (power_off env instance) (\<lambda>_.
          bind (perform env (Copy_image migrate_src migrate_dest dest)) (\<lambda>_.
          return ()))))))
         (\<lambda>e. migrate_handler env instance dest (Some image_tar_name) e)))"

section \<open>Kinds of calls\<close>

text \<open>The two read-only engine calls of the identity resolver.\<close>

fun lookup_call :: "call \<Rightarrow> bool" where
  "lookup_call (Docker_containers f) = True"
| "lookup_call (Docker_inspect_container i) = True"
| "lookup_call _ = False"

text \<open>The engine calls that change a container or an image.\<close>

fun engine_mutation :: "call \<Rightarrow> bool" where
  "engine_mutation (Docker_create_container a b) = True"
| "engine_mutation (Docker_create_volume_container a b c d e) = True"
| "engine_mutation (Docker_update_start a b c d e f) = True"
| "engine_mutation (Docker_stop a b) = True"
| "engine_mutation (Docker_unpause a) = True"
| "engine_mutation (Docker_pause a) = True"
| "engine_mutation (Docker_kill a) = True"
| "engine_mutation (Docker_remove_container a b c) = True"
| "engine_mutation (Docker_commit a b c) = True"
| "engine_mutation (Docker_remove_image a) = True"
| "engine_mutation _ = False"

section \<open>Example inputs\<close>

definition vm1 :: nova_instance where
  "vm1 = \<lparr> inst_name = ''vm1'', inst_hostname = ''vm1'', inst_uuid = ''u1'', inst_root_gb = 10,
           inst_ephemeral_gb = 0,
           inst_flavor = \<lparr> vcpus = 2, memory_mb = 512, root_gb = 10, ephemeral_gb = 0 \<rparr>,
           is_object = True, instance_type_memory_mb = None \<rparr>"

definition cfg_default :: conf where
  "cfg_default = \<lparr> docker_cpu_mode = ''cpushare'', docker_system_cpuset = ''-1'',
                   dir_volume_path = ''/os_docker_volume'',
                   snapshots_directory = ''/snapshots'',
                   delete_migration_source = False \<rparr>"

definition helpers_example :: helpers where
  "helpers_example = \<lparr> find_dns = (\<lambda>network_info. Inr [''8.8.8.8'']),
                       find_first_ip = (\<lambda>instance network_info. Inr (PStr ''10.0.0.2'')) \<rparr>"

text \<open>An engine whose only container is named \<^verbatim>\<open>/vm10\<close>.\<close>

definition engine_other :: world where
  "engine_other tr c =
     (case c of
        Docker_containers f \<Rightarrow>
          Inr (PList [PDict [(''Id'', PStr ''abc''), (''Names'', PList [PStr ''/vm10''])]])
      | _ \<Rightarrow> Inr PNone)"

section \<open>Comma-joined processor numbers\<close>

text \<open>
  The strings of a list joined with commas, and the processor number of a processor name
  such as \<^verbatim>\<open>cpu12\<close>: the name without its first three characters.
\<close>

fun comma_join :: "string list \<Rightarrow> string" where
  "comma_join [] = []"
| "comma_join [x] = x"
| "comma_join (x # y # ys) = x @ '','' @ comma_join (y # ys)"

definition processor_number :: "string \<Rightarrow> string" where
  "processor_number cpu = drop 3 cpu"

text \<open>A CPU allocation map that hands out processors 2 and 3 of five, 0 and 1 reserved.\<close>

definition cpu_map_example :: world where
  "cpu_map_example tr c =
     (case c of
        Cpuset_less_set_cpus system_cpuset n \<Rightarrow> Inr (PList [PStr ''cpu2'', PStr ''cpu3''])
      | Cpuset_get_unsystem_cpu system_cpuset \<Rightarrow>
          Inr (PList [PStr ''cpu2'', PStr ''cpu3'', PStr ''cpu4''])
      | _ \<Rightarrow> Inr PNone)"

text \<open>An engine whose only container is \<^verbatim>\<open>/vm1\<close>, running, and a host where every path exists.\<close>

definition engine_vm1 :: world where
  "engine_vm1 tr c =
     (case c of
        Docker_containers f \<Rightarrow>
          Inr (PList [PDict [(''Id'', PStr ''abc''), (''Names'', PList [PStr ''/vm1''])]])
      | Docker_inspect_container i \<Rightarrow>
          Inr (PDict [(''Id'', PStr ''abc''),
                      (''State'', PDict [(''Running'', PBool True), (''Pid'', PInt 4242)]),
                      (''Config'', PDict [(''Memory'', PInt 536870912),
                                          (''CpuShares'', PInt 2048)])])
      | Path_exists p \<Rightarrow> Inr (PBool True)
      | Path_isdir p \<Rightarrow> Inr (PBool True)
      | _ \<Rightarrow> Inr PNone)"

text \<open>The same world, except that one call raises.\<close>

definition failing_at :: "call \<Rightarrow> exc \<Rightarrow> world \<Rightarrow> world" where
  "failing_at bad e env tr c = (if c = bad then Inl e else env tr c)"

definition smaller_flavor :: flavor where
  "smaller_flavor = \<lparr> vcpus = 2, memory_mb = 512, root_gb = 5, ephemeral_gb = 0 \<rparr>"

definition same_flavor :: flavor where
  "same_flavor = \<lparr> vcpus = 2, memory_mb = 512, root_gb = 10, ephemeral_gb = 0 \<rparr>"

section \<open>Volume roles as the specification names them\<close>

text \<open>
  The roles an image declares, with the container path of each, in the order log, data,
  other; the host directory of a role; and the bind of a declared role.
\<close>

definition declared_roles :: "image_meta option \<Rightarrow> (string \<times> string) list" where
  "declared_roles image_meta =
     (case image_meta of
        None \<Rightarrow> []
      | Some im \<Rightarrow>
          List.map_filter (\<lambda>rk. map_option (Pair (fst rk)) (declared im (snd rk)))
            [(''log'', ''log_volume''), (''data'', ''data_volume''),
             (''other'', ''other_volume'')])"

definition role_dir :: "conf \<Rightarrow> nova_instance \<Rightarrow> string \<Rightarrow> string \<Rightarrow> string" where
  "role_dir cfg instance first_ip role =
     dir_volume_path cfg @ ''/'' @ role @ ''/'' @ inst_name instance @ ''_'' @ first_ip"

definition role_bind :: "conf \<Rightarrow> nova_instance \<Rightarrow> string \<Rightarrow> string \<times> string \<Rightarrow> string" where
  "role_bind cfg instance first_ip rp = role_dir cfg instance first_ip (fst rp) @ '':'' @ snd rp"

text \<open>What the three directory probes and removals of the destroy path leave in the trace.\<close>

definition probe_and_remove :: "string set \<Rightarrow> string \<Rightarrow> call list" where
  "probe_and_remove existing d = (if d \<in> existing then [Path_isdir d, Rmtree d] else [Path_isdir d])"

text \<open>An image that declares a log and an other volume, and one that declares none.\<close>

definition image_two_volumes :: image_meta where
  "image_two_volumes =
     \<lparr> im_name = ''app'', im_id = ''0123456789abcdef'', container_format = ''docker'',
       properties = Some [(''log_volume'', ''/var/log/app''), (''data_volume'', ''''),
                          (''other_volume'', ''/srv'')] \<rparr>"

definition image_plain :: image_meta where
  "image_plain =
     \<lparr> im_name = ''app'', im_id = ''0123456789abcdef'', container_format = ''docker'',
       properties = None \<rparr>"

text \<open>
  A host with the companion container of \<^verbatim>\<open>vm1\<close>, where of the three role directories
  only the log one exists.
\<close>

definition engine_vm1_vol :: world where
  "engine_vm1_vol tr c =
     (case c of
        Docker_containers f \<Rightarrow>
          Inr (PList [PDict [(''Id'', PStr ''abc''), (''Names'', PList [PStr ''/vm1''])],
                      PDict [(''Id'', PStr ''def''), (''Names'', PList [PStr ''/vm1_vol''])]])
      | Path_isdir d \<Rightarrow> Inr (PBool (d \<in> {''/os_docker_volume/log/vm1_10.0.0.2''}))
      | _ \<Rightarrow> Inr PNone)"

section \<open>Polling for the process id\<close>

text \<open>
  The calls of \<open>k\<close> unsuccessful polls: an inspect, then a sleep of one second, each time.
\<close>

definition poll_trace :: "pyval \<Rightarrow> nat \<Rightarrow> call list" where
  "poll_trace container_id k =
     concat (replicate k [Docker_inspect_container container_id, Sleep 1])"

text \<open>The process id in an inspect reply: \<^verbatim>\<open>info['State']['Pid']\<close> when \<open>info\<close> is not empty.\<close>

definition pid_of :: "pyval \<Rightarrow> exc + pyval" where
  "pid_of info =
     (if truthy info
      then sbind (py_getitem info (PStr ''State'')) (\<lambda>st. py_getitem st (PStr ''Pid''))
      else Inr PNone)"

text \<open>An inspect reply without a process id yet, and one with the process id \<open>p\<close>.\<close>

definition no_pid_yet :: "exc + pyval \<Rightarrow> bool" where
  "no_pid_yet r =
     (case r of
        Inl e \<Rightarrow> False
      | Inr info \<Rightarrow> (case pid_of info of Inl e \<Rightarrow> False | Inr p \<Rightarrow> \<not> truthy p))"

definition has_pid :: "exc + pyval \<Rightarrow> pyval \<Rightarrow> bool" where
  "has_pid r p = (case r of Inl e \<Rightarrow> False | Inr info \<Rightarrow> pid_of info = Inr p \<and> truthy p)"

text \<open>
  Container \<^verbatim>\<open>/vm1\<close> on an engine that reports process id 0 until four calls have been
  made after the start of the run, and on one that reports 0 for ever.
\<close>

definition engine_pid_after :: "nat \<Rightarrow> world" where
  "engine_pid_after k tr c =
     (case c of
        Docker_containers f \<Rightarrow>
          Inr (PList [PDict [(''Id'', PStr ''abc''), (''Names'', PList [PStr ''/vm1''])]])
      | Docker_inspect_container i \<Rightarrow>
          Inr (PDict [(''Id'', PStr ''abc''),
                      (''State'', PDict [(''Running'', PBool True),
                                         (''Pid'', PInt (if length tr < k then 0 else 4242))])])
      | Path_exists p \<Rightarrow> Inr (PBool True)
      | _ \<Rightarrow> Inr PNone)"

definition engine_no_pid :: world where
  "engine_no_pid tr c =
     (case c of
        Docker_containers f \<Rightarrow>
          Inr (PList [PDict [(''Id'', PStr ''abc''), (''Names'', PList [PStr ''/vm1''])]])
      | Docker_inspect_container i \<Rightarrow>
          Inr (PDict [(''Id'', PStr ''abc''),
                      (''State'', PDict [(''Running'', PBool True), (''Pid'', PInt 0)])])
      | Path_exists p \<Rightarrow> Inr (PBool True)
      | _ \<Rightarrow> Inr PNone)"

text \<open>
  The calls that make sure the directory \<^verbatim>\<open>/var/run/netns\<close> is there: the probe, and
  the \<^verbatim>\<open>mkdir\<close> when the probe says no.
\<close>

definition netns_dir_calls :: "bool \<Rightarrow> call list" where
  "netns_dir_calls there =
     (if there then [Path_exists ''/var/run/netns'']
      else [Path_exists ''/var/run/netns'',
            Execute [Lit ''mkdir'', Lit ''-p'', Lit ''/var/run/netns'']])"

section \<open>Starting a container\<close>

text \<open>
  The start call of \<open>start_container\<close> for a container id, the DNS servers found, the
  CPU set computed and whether the companion volume container exists.
\<close>

definition start_call ::
  "conf \<Rightarrow> nova_instance \<Rightarrow> pyval \<Rightarrow> string list \<Rightarrow> pyval \<Rightarrow> bool \<Rightarrow> call" where
  "start_call cfg instance container_id dns cpuset ex =
     Docker_update_start container_id (get_memory_limit_bytes instance)
       (if dns = [] then None else Some dns) (get_cpu_shares cfg instance) cpuset
       (if ex then Some (inst_name instance @ ''_vol'') else None)"

text \<open>The calls of a program all satisfy \<open>P\<close>, whatever the run.\<close>

definition only :: "(call \<Rightarrow> bool) \<Rightarrow> 'a prog \<Rightarrow> bool" where
  "only P m = (\<forall>tr r tr'. m tr = (r, tr') \<longrightarrow> (\<exists>ext. tr' = tr @ ext \<and> (\<forall>c \<in> set ext. P c)))"

text \<open>An engine on which attaching a virtual interface fails.\<close>

definition engine_attach_fails :: world where
  "engine_attach_fails = failing_at (Vif_attach ''vm1'' (PStr ''vif0'') (PStr ''abc''))
                           (ExecutionError ''ip link'') engine_vm1"

text \<open>
  Container \<^verbatim>\<open>/vm1\<close> whose process is gone: the engine reports process id 0 for ever,
  and refuses to kill a container that is not running.
\<close>

definition engine_exited :: world where
  "engine_exited = failing_at (Docker_kill (PStr ''abc''))
                     (APIError 500 ''Container abc is not running'') engine_no_pid"

section \<open>Properties\<close>

lemma bind_return [simp]: "bind (return x) f = f x"
  by (rule ext) (simp add: bind_def return_def)

lemma bind_raise [simp]: "bind (raise e) f = raise e"
  by (rule ext) (simp add: bind_def raise_def)

lemma bind_lift_Inr [simp]: "bind (lift (Inr x)) f = f x"
  by (rule ext) (simp add: bind_def lift_def)

lemma bind_lift_Inl [simp]: "bind (lift (Inl e)) f = raise e"
  by (rule ext) (simp add: bind_def lift_def raise_def)

lemma bind_result:
  "m tr = (Inr x, tr') \<Longrightarrow> bind m f tr = f x tr'"
  "m tr = (Inl e, tr') \<Longrightarrow> bind m f tr = (Inl e, tr')"
  by (simp_all add: bind_def)

text \<open>
  C10. When the lookup of the instance's name returns the empty record, \<open>get_info\<close>
  raises \<open>InstanceNotFound\<close> for that name; it returns no result.
\<close>

theorem get_info_absent_raises:
  assumes "find_container_by_name env (inst_name instance) tr = (Inr (PDict []), tr')"
  shows "get_info env instance tr = (Inl (InstanceNotFound (inst_name instance)), tr')"
  using assms by (simp add: get_info_def bind_result raise_def)

lemma find_loop_trace:
  "find_loop env name cts tr = (r, tr') \<Longrightarrow>
     tr' = tr \<or> (\<exists>i. tr' = tr @ [Docker_inspect_container i])"
proof (induction cts)
  case Nil
  then show ?case by (simp add: return_def)
next
  case (Cons ct cts)
  show ?case
  proof (cases "truthy ct")
    case False
    with Cons show ?thesis by simp
  next
    case True
    show ?thesis
    proof (cases "stripped_name ct")
      case (Inl e)
      with True Cons.prems show ?thesis by (simp add: raise_def)
    next
      case (Inr n)
      show ?thesis
      proof (cases "n = PStr name")
        case False
        with True Inr Cons show ?thesis by simp
      next
        case True
        with \<open>truthy ct\<close> Inr Cons.prems show ?thesis
          by (cases "py_getitem ct (PStr ''Id'')")
             (auto simp: raise_def bind_def perform_def return_def split: sum.splits)
      qed
    qed
  qed
qed

lemma find_container_by_name_trace:
  assumes "find_container_by_name env name tr = (r, tr')"
  shows "\<exists>ext. tr' = tr @ ext \<and> (\<forall>c \<in> set ext. lookup_call c)"
proof -
  let ?l = "Docker_containers (Some name)"
  show ?thesis
  proof (cases "env tr ?l")
    case (Inl e)
    with assms have "tr' = tr @ [?l]"
      by (cases e) (auto simp: find_container_by_name_def catch_def bind_def perform_def
            raise_def return_def split: if_splits)
    then show ?thesis by simp
  next
    case (Inr containers)
    show ?thesis
    proof (cases "py_iter containers")
      case (Inl e)
      with Inr assms have "tr' = tr @ [?l]"
        by (cases e) (auto simp: find_container_by_name_def catch_def bind_def perform_def
            raise_def return_def lift_def split: if_splits)
      then show ?thesis by simp
    next
      case cts: (Inr cts)
      obtain r1 tr1 where l: "find_loop env name cts (tr @ [?l]) = (r1, tr1)"
        by (cases "find_loop env name cts (tr @ [?l])") auto
      from find_loop_trace [OF l] have
        t1: "tr1 = tr @ [?l] \<or> (\<exists>i. tr1 = tr @ [?l] @ [Docker_inspect_container i])" by auto
      have "tr' = tr1"
        using assms Inr cts l
        by (cases r1)
           (auto simp: find_container_by_name_def catch_def bind_def perform_def
              raise_def return_def lift_def split: if_splits exc.splits option.splits)
      with t1 show ?thesis by auto
    qed
  qed
qed



lemma lookup_not_mutation: "lookup_call c \<Longrightarrow> \<not> engine_mutation c"
  by (cases c) simp_all

lemma get_container_id_absent:
  "find_container_by_name env (inst_name instance) tr = (Inr (PDict []), tr') \<Longrightarrow>
   get_container_id env instance tr = (Inr PNone, tr')"
  by (simp add: get_container_id_def bind_result lift_def)

text \<open>
  C1. When the lookup of the instance's name returns the empty record, \<open>destroy\<close>,
  \<open>reboot\<close>, \<open>power_on\<close> and \<open>power_off\<close> return at once: the only calls made
  are those of the lookup itself (container listing and inspect), none of which is a
  stop, kill, remove, create or start.
\<close>

theorem absent_lifecycle_noop:
  assumes "find_container_by_name env (inst_name instance) tr = (Inr (PDict []), tr')"
  shows "destroy env hp cfg instance network_info tr = (Inr (), tr')
       \<and> reboot env hp cfg instance network_info tr = (Inr (), tr')
       \<and> power_on env hp cfg instance network_info tr = (Inr (), tr')
       \<and> power_off env instance tr = (Inr (), tr')
       \<and> (\<exists>ext. tr' = tr @ ext \<and> (\<forall>c \<in> set ext. lookup_call c \<and> \<not> engine_mutation c))"
proof -
  have cid: "get_container_id env instance tr = (Inr PNone, tr')"
    using assms by (rule get_container_id_absent)
  have d: "destroy env hp cfg instance network_info tr = (Inr (), tr')"
    using cid by (simp add: destroy_def bind_result return_def)
  have r: "reboot env hp cfg instance network_info tr = (Inr (), tr')"
    using cid by (simp add: reboot_def bind_result return_def)
  have p: "power_on env hp cfg instance network_info tr = (Inr (), tr')"
    using cid by (simp add: power_on_def bind_result return_def)
  have q: "power_off env instance tr = (Inr (), tr')"
    using cid by (simp add: power_off_def bind_result return_def)
  from find_container_by_name_trace [OF assms] lookup_not_mutation
  have "\<exists>ext. tr' = tr @ ext \<and> (\<forall>c \<in> set ext. lookup_call c \<and> \<not> engine_mutation c)"
    by blast
  with d r p q show ?thesis by simp
qed

lemma engine_other_lookup:
  "find_container_by_name engine_other ''vm1'' [] = (Inr (PDict []), [Docker_containers (Some ''vm1'')])"
  by (simp add: find_container_by_name_def catch_def bind_def perform_def lift_def return_def
        engine_other_def stripped_name_def sbind_def py_nth_def)

theorem absent_lifecycle_noop_witness:
  "find_container_by_name engine_other (inst_name vm1) []
     = (Inr (PDict []), [Docker_containers (Some ''vm1'')])
   \<and> destroy engine_other helpers_example cfg_default vm1 (PList []) [] = (Inr (), [Docker_containers (Some ''vm1'')])
   \<and> reboot engine_other helpers_example cfg_default vm1 (PList []) [] = (Inr (), [Docker_containers (Some ''vm1'')])
   \<and> power_on engine_other helpers_example cfg_default vm1 (PList []) [] = (Inr (), [Docker_containers (Some ''vm1'')])
   \<and> power_off engine_other vm1 [] = (Inr (), [Docker_containers (Some ''vm1'')])"
proof -
  have h: "find_container_by_name engine_other (inst_name vm1) []
     = (Inr (PDict []), [Docker_containers (Some ''vm1'')])"
    using engine_other_lookup by (simp add: vm1_def)
  from absent_lifecycle_noop [OF h, of helpers_example cfg_default "PList []"] h show ?thesis by simp
qed


theorem get_info_absent_raises_witness:
  "find_container_by_name engine_other (inst_name vm1) []
     = (Inr (PDict []), [Docker_containers (Some ''vm1'')])
   \<and> get_info engine_other vm1 []
     = (Inl (InstanceNotFound ''vm1''), [Docker_containers (Some ''vm1'')])"
proof -
  have h: "find_container_by_name engine_other (inst_name vm1) []
     = (Inr (PDict []), [Docker_containers (Some ''vm1'')])"
    using engine_other_lookup by (simp add: vm1_def)
  from get_info_absent_raises [OF h] h show ?thesis by (simp add: vm1_def)
qed

text \<open>
  C5. The CPU-share weight is unset when the configured mode is \<^verbatim>\<open>cpushare\<close>, and is
  the flavor's vcpu count times 1024 when the mode is \<^verbatim>\<open>cpuset\<close> or \<^verbatim>\<open>mix\<close>.
\<close>

theorem cpu_shares_by_mode:
  "get_cpu_shares (cfg\<lparr>docker_cpu_mode := ''cpushare''\<rparr>) instance = None
   \<and> get_cpu_shares (cfg\<lparr>docker_cpu_mode := ''cpuset''\<rparr>) instance
       = Some (vcpus (inst_flavor instance) * 1024)
   \<and> get_cpu_shares (cfg\<lparr>docker_cpu_mode := ''mix''\<rparr>) instance
       = Some (vcpus (inst_flavor instance) * 1024)"
  by (simp add: get_cpu_shares_def)

lemma join_loop_strings:
  "join_loop (PStr s) (map PStr cs)
     = Inr (PStr (s @ concat (map (\<lambda>c. '','' @ processor_number c) cs)))"
  by (induction cs arbitrary: s) (simp_all add: sbind_def processor_number_def)

lemma comma_join_Cons:
  "comma_join (x # xs) = x @ concat (map (\<lambda>c. '','' @ c) xs)"
  by (induction xs arbitrary: x) simp_all

lemma join_cpus_strings:
  "join_cpus (PList (map PStr (c # cs)))
     = Inr (PStr (comma_join (map processor_number (c # cs))))"
proof -
  have "concat (map (\<lambda>c. '','' @ processor_number c) cs)
          = concat (map (\<lambda>c. '','' @ c) (map processor_number cs))"
    by (simp add: comp_def)
  then show ?thesis
    by (simp add: join_cpus_def sbind_def py_nth_def join_loop_strings comma_join_Cons
          processor_number_def del: comma_join.simps)
qed

lemma join_cpus_empty: "join_cpus (PList []) = Inl IndexError"
  by (simp add: join_cpus_def sbind_def py_nth_def)

text \<open>
  C6. The CPU set. Under \<^verbatim>\<open>cpuset\<close> or \<^verbatim>\<open>mix\<close> the allocation map built with the
  configured system-reserved set is asked for as many processors as the flavor has vcpus,
  and the result is the comma-joined processor numbers of the names it hands out. Under
  \<^verbatim>\<open>cpushare\<close> with a system-reserved set other than \<^verbatim>\<open>-1\<close> the result is the
  comma-joined processor numbers of the map's whole non-system set. Under
  \<^verbatim>\<open>cpushare\<close> with \<^verbatim>\<open>-1\<close> it is unset and nothing is asked. The map hands out a
  non-empty list of names here (an empty one raises, see \<open>join_cpus_empty\<close>).
\<close>

theorem cpu_set_by_mode:
  "((docker_cpu_mode cfg = ''cpuset'' \<or> docker_cpu_mode cfg = ''mix'')
      \<and> env tr (Cpuset_get_map (docker_system_cpuset cfg)) = Inr m
      \<and> env (tr @ [Cpuset_get_map (docker_system_cpuset cfg)])
            (Cpuset_less_set_cpus (docker_system_cpuset cfg) (vcpus (inst_flavor instance)))
          = Inr (PList (map PStr (c # cs)))
     \<longrightarrow> get_cpu_set env cfg instance tr
          = (Inr (PStr (comma_join (map processor_number (c # cs)))),
             tr @ [Cpuset_get_map (docker_system_cpuset cfg),
                   Cpuset_less_set_cpus (docker_system_cpuset cfg)
                     (vcpus (inst_flavor instance))]))
   \<and> (docker_cpu_mode cfg = ''cpushare'' \<and> docker_system_cpuset cfg \<noteq> ''-1''
      \<and> env tr (Cpuset_get_unsystem_cpu (docker_system_cpuset cfg))
          = Inr (PList (map PStr (c # cs)))
     \<longrightarrow> get_cpu_set env cfg instance tr
          = (Inr (PStr (comma_join (map processor_number (c # cs)))),
             tr @ [Cpuset_get_unsystem_cpu (docker_system_cpuset cfg)]))
   \<and> (docker_cpu_mode cfg = ''cpushare'' \<and> docker_system_cpuset cfg = ''-1''
     \<longrightarrow> get_cpu_set env cfg instance tr = (Inr PNone, tr))"
proof (intro conjI impI)
  assume a: "(docker_cpu_mode cfg = ''cpuset'' \<or> docker_cpu_mode cfg = ''mix'')
      \<and> env tr (Cpuset_get_map (docker_system_cpuset cfg)) = Inr m
      \<and> env (tr @ [Cpuset_get_map (docker_system_cpuset cfg)])
            (Cpuset_less_set_cpus (docker_system_cpuset cfg) (vcpus (inst_flavor instance)))
          = Inr (PList (map PStr (c # cs)))"
  then show "get_cpu_set env cfg instance tr
          = (Inr (PStr (comma_join (map processor_number (c # cs)))),
             tr @ [Cpuset_get_map (docker_system_cpuset cfg),
                   Cpuset_less_set_cpus (docker_system_cpuset cfg)
                     (vcpus (inst_flavor instance))])"
    using join_cpus_strings [of c cs]
    by (auto simp: get_cpu_set_def Let_def bind_def perform_def lift_def
          simp del: comma_join.simps)
next
  assume "docker_cpu_mode cfg = ''cpushare'' \<and> docker_system_cpuset cfg \<noteq> ''-1''
      \<and> env tr (Cpuset_get_unsystem_cpu (docker_system_cpuset cfg))
          = Inr (PList (map PStr (c # cs)))"
  then show "get_cpu_set env cfg instance tr
          = (Inr (PStr (comma_join (map processor_number (c # cs)))),
             tr @ [Cpuset_get_unsystem_cpu (docker_system_cpuset cfg)])"
    using join_cpus_strings [of c cs]
    by (auto simp: get_cpu_set_def Let_def bind_def perform_def lift_def
          simp del: comma_join.simps)
next
  assume "docker_cpu_mode cfg = ''cpushare'' \<and> docker_system_cpuset cfg = ''-1''"
  then show "get_cpu_set env cfg instance tr = (Inr PNone, tr)"
    by (simp add: get_cpu_set_def Let_def return_def)
qed

theorem cpu_set_by_mode_witness:
  "get_cpu_set cpu_map_example (cfg_default\<lparr>docker_cpu_mode := ''cpuset''\<rparr>) vm1 []
     = (Inr (PStr ''2,3''), [Cpuset_get_map ''-1'', Cpuset_less_set_cpus ''-1'' 2])
   \<and> get_cpu_set cpu_map_example (cfg_default\<lparr>docker_system_cpuset := ''0-1''\<rparr>) vm1 []
     = (Inr (PStr ''2,3,4''), [Cpuset_get_unsystem_cpu ''0-1''])
   \<and> get_cpu_set cpu_map_example cfg_default vm1 [] = (Inr PNone, [])"
  using cpu_set_by_mode [of "cfg_default\<lparr>docker_cpu_mode := ''cpuset''\<rparr>" cpu_map_example "[]"
          PNone vm1 "''cpu2''" "[''cpu3'']"]
        cpu_set_by_mode [of "cfg_default\<lparr>docker_system_cpuset := ''0-1''\<rparr>" cpu_map_example "[]"
          PNone vm1 "''cpu2''" "[''cpu3'', ''cpu4'']"]
        cpu_set_by_mode [of cfg_default cpu_map_example "[]" PNone vm1 "''cpu2''" "[]"]
  by (simp add: cfg_default_def cpu_map_example_def vm1_def processor_number_def)

lemma get_container_id_trace:
  assumes "get_container_id env instance tr = (r, tr')"
  shows "\<exists>ext. tr' = tr @ ext \<and> (\<forall>c \<in> set ext. lookup_call c)"
proof -
  obtain r1 tr1 where f: "find_container_by_name env (inst_name instance) tr = (r1, tr1)"
    by (cases "find_container_by_name env (inst_name instance) tr") auto
  have "tr' = tr1"
    using assms f by (cases r1) (auto simp: get_container_id_def bind_def lift_def)
  with find_container_by_name_trace [OF f] show ?thesis by simp
qed

lemma engine_vm1_id:
  "get_container_id engine_vm1 vm1 []
     = (Inr (PStr ''abc''),
        [Docker_containers (Some ''vm1''), Docker_inspect_container (PStr ''abc'')])"
  by (simp add: get_container_id_def find_container_by_name_def catch_def bind_def perform_def
        lift_def return_def engine_vm1_def stripped_name_def sbind_def py_nth_def vm1_def)

text \<open>
  C3. When the destination flavor's \<open>root_gb\<close> or \<open>ephemeral_gb\<close> is smaller than the
  instance's, \<open>migrate_disk_and_power_off\<close> raises: the only calls made are those of the
  container-id lookup that precedes the check (listing and inspect), so no staging
  directory is created, no image committed and no archive written; and when that lookup
  returns, the error raised is the resize-down error.
\<close>

theorem resize_down_rejected_first:
  assumes "root_gb flavor < inst_root_gb instance
           \<or> ephemeral_gb flavor < inst_ephemeral_gb instance"
  shows "(\<forall>cid tr'. get_container_id env instance tr = (Inr cid, tr') \<longrightarrow>
            migrate_disk_and_power_off env cfg instance dest flavor network_info tr
              = (Inl (InstanceFaultRollback (ResizeError ''Unable to resize disk down.'')), tr'))
       \<and> (\<exists>e ext. migrate_disk_and_power_off env cfg instance dest flavor network_info tr
                     = (Inl e, tr @ ext)
                   \<and> (\<forall>c \<in> set ext. lookup_call c \<and> \<not> engine_mutation c))"
proof (intro conjI allI impI)
  fix cid tr'
  assume "get_container_id env instance tr = (Inr cid, tr')"
  with assms
  show "migrate_disk_and_power_off env cfg instance dest flavor network_info tr
          = (Inl (InstanceFaultRollback (ResizeError ''Unable to resize disk down.'')), tr')"
    by (auto simp: migrate_disk_and_power_off_def bind_result Let_def raise_def)
next
  obtain r tr1 where g: "get_container_id env instance tr = (r, tr1)"
    by (cases "get_container_id env instance tr") auto
  from get_container_id_trace [OF g] obtain ext where
    ext: "tr1 = tr @ ext" "\<forall>c \<in> set ext. lookup_call c" by auto
  have "\<exists>e. migrate_disk_and_power_off env cfg instance dest flavor network_info tr
               = (Inl e, tr1)"
    using assms g
    by (cases r) (auto simp: migrate_disk_and_power_off_def bind_result Let_def raise_def)
  with ext lookup_not_mutation
  show "\<exists>e ext. migrate_disk_and_power_off env cfg instance dest flavor network_info tr
                   = (Inl e, tr @ ext)
                 \<and> (\<forall>c \<in> set ext. lookup_call c \<and> \<not> engine_mutation c)"
    by blast
qed

theorem resize_down_rejected_first_witness:
  "root_gb smaller_flavor < inst_root_gb vm1
   \<and> migrate_disk_and_power_off engine_vm1 cfg_default vm1 ''host2'' smaller_flavor (PList []) []
       = (Inl (InstanceFaultRollback (ResizeError ''Unable to resize disk down.'')),
          [Docker_containers (Some ''vm1''), Docker_inspect_container (PStr ''abc'')])"
proof -
  have h: "root_gb smaller_flavor < inst_root_gb vm1
           \<or> ephemeral_gb smaller_flavor < inst_ephemeral_gb vm1"
    by (simp add: smaller_flavor_def vm1_def)
  from resize_down_rejected_first [OF h, of engine_vm1 "[]" cfg_default "''host2''" "PList []"]
    engine_vm1_id
  show ?thesis by (simp add: smaller_flavor_def vm1_def)
qed

lemma migrate_handler_raises:
  "migrate_handler env instance dest image_tar_name e tr
     = (Inl (case image_tar_name of
               None \<Rightarrow> UnboundLocalError ''image_tar_name''
             | Some t \<Rightarrow> TypeError ''got multiple values for keyword argument''), tr)"
  by (cases image_tar_name)
     (simp_all add: migrate_handler_def save_and_reraise_exception_def raise_def
        call_cleanup_migration_def bind_args_def sbind_def)

text \<open>
  Whatever fails in the export sequence, what \<open>migrate_disk_and_power_off\<close> raises is
  the error of its own handler, never the failure itself.
\<close>

lemma migrate_raises_handler_error:
  assumes "get_container_id env instance tr = (Inr cid, tr1)"
    and "\<not> root_gb flavor < inst_root_gb instance"
    and "\<not> ephemeral_gb flavor < inst_ephemeral_gb instance"
    and "migrate_disk_and_power_off env cfg instance dest flavor network_info tr = (Inl e, tr')"
  shows "e = UnboundLocalError ''image_tar_name''
         \<or> e = TypeError ''got multiple values for keyword argument''"
  using assms
  by (auto simp: migrate_disk_and_power_off_def bind_result Let_def bind_def catch_def
        migrate_handler_raises return_def split: sum.splits prod.splits)

text \<open>
  C2, at two failing inputs. When the commit raises an engine error 500, what comes out
  is \<^verbatim>\<open>UnboundLocalError\<close>; when the transfer raises, what comes out is \<^verbatim>\<open>TypeError\<close>.
  In both runs the last call made is the one that failed: no archive is deleted and no
  image removed.
\<close>

theorem migrate_rollback_not_run:
  "migrate_disk_and_power_off
     (failing_at (Docker_commit (PStr ''abc'') ''vm1'' ''latest'') (APIError 500 ''boom'')
        engine_vm1)
     cfg_default vm1 ''host2'' same_flavor (PList []) []
   = (Inl (UnboundLocalError ''image_tar_name''),
      [Docker_containers (Some ''vm1''), Docker_inspect_container (PStr ''abc''),
       Execute [Lit ''mkdir'', Lit ''-p'', Lit ''/snapshots/migrate_src/''],
       Docker_commit (PStr ''abc'') ''vm1'' ''latest''])
   \<and> migrate_disk_and_power_off
     (failing_at (Copy_image ''/snapshots/migrate_src/'' ''/snapshots/migrate_dest/'' ''host2'')
        (ExecutionError ''scp'') engine_vm1)
     cfg_default vm1 ''host2'' same_flavor (PList []) []
   = (Inl (TypeError ''got multiple values for keyword argument''),
      [Docker_containers (Some ''vm1''), Docker_inspect_container (PStr ''abc''),
       Execute [Lit ''mkdir'', Lit ''-p'', Lit ''/snapshots/migrate_src/''],
       Docker_commit (PStr ''abc'') ''vm1'' ''latest'',
       Docker_get_image ''vm1'',
       File_open_w ''/snapshots/migrate_src/vm1.tar'',
       File_write ''/snapshots/migrate_src/vm1.tar'' PNone,
       File_close ''/snapshots/migrate_src/vm1.tar'',
       Docker_containers (Some ''vm1''), Docker_inspect_container (PStr ''abc''),
       Docker_stop (PStr ''abc'') 10,
       Copy_image ''/snapshots/migrate_src/'' ''/snapshots/migrate_dest/'' ''host2''])"
  by (simp add: migrate_disk_and_power_off_def power_off_def stop_container_def
        get_container_id_def find_container_by_name_def catch_def bind_def perform_def
        lift_def return_def engine_vm1_def failing_at_def stripped_name_def sbind_def
        py_nth_def vm1_def cfg_default_def same_flavor_def migrate_handler_raises Let_def)

lemma opt_truthy_declared: "opt_truthy (declared im key) = (declared im key \<noteq> None)"
  by (auto simp: opt_truthy_def declared_def split: option.splits)

lemma declared_Some_nonempty: "declared im key = Some a \<Longrightarrow> a \<noteq> []"
  by (auto simp: declared_def split: option.splits if_splits)

lemma declared_roles_distinct: "distinct (map fst (declared_roles image_meta))"
  by (cases image_meta)
     (auto simp: declared_roles_def List.map_filter_simps split: option.splits)

text \<open>
  C7. When the image metadata declares none of the three volumes, volume-container
  creation returns \<open>False\<close> and makes no call. When it declares at least one (and the
  first address is found and the engine's create call returns), it returns \<open>True\<close> after
  one create call: the container is named after the instance with \<^verbatim>\<open>_vol\<close>, network
  disabled, its volumes are the declared container paths and its binds are one
  \<open>role_bind\<close> per declared role, roles being listed once each.
\<close>

theorem create_volume_containers_by_declaration:
  "(declared_roles image_meta = [] \<longrightarrow>
      create_volume_containers env hp cfg instance image_name image_meta network_info tr
        = (Inr False, tr))
   \<and> (declared_roles image_meta \<noteq> []
      \<and> find_first_ip hp instance network_info = Inr (PStr first_ip)
      \<and> env tr (Docker_create_volume_container image_name (inst_name instance @ ''_vol'') True
                  (map snd (declared_roles image_meta))
                  (map (role_bind cfg instance first_ip) (declared_roles image_meta)))
          = Inr reply
      \<longrightarrow>
      create_volume_containers env hp cfg instance image_name image_meta network_info tr
        = (Inr True,
           tr @ [Docker_create_volume_container image_name (inst_name instance @ ''_vol'') True
                   (map snd (declared_roles image_meta))
                   (map (role_bind cfg instance first_ip) (declared_roles image_meta))]))
   \<and> distinct (map fst (declared_roles image_meta))"
proof (intro conjI impI)
  assume "declared_roles image_meta = []"
  then show "create_volume_containers env hp cfg instance image_name image_meta network_info tr
        = (Inr False, tr)"
    by (cases image_meta)
       (auto simp: create_volume_containers_def get_dir_volume_def Let_def return_def
          opt_truthy_declared declared_roles_def List.map_filter_simps opt_truthy_def
          split: option.splits)
next
  let ?c = "Docker_create_volume_container image_name (inst_name instance @ ''_vol'') True
                   (map snd (declared_roles image_meta))
                   (map (role_bind cfg instance first_ip) (declared_roles image_meta))"
  assume a: "declared_roles image_meta \<noteq> []
      \<and> find_first_ip hp instance network_info = Inr (PStr first_ip)
      \<and> env tr ?c = Inr reply"
  then obtain im where im: "image_meta = Some im"
    by (cases image_meta) (auto simp: declared_roles_def)
  from a im show "create_volume_containers env hp cfg instance image_name image_meta
                    network_info tr = (Inr True, tr @ [?c])"
    by (cases "declared im ''log_volume''"; cases "declared im ''data_volume''";
        cases "declared im ''other_volume''")
       (auto simp: create_volume_containers_def get_dir_volume_def Let_def return_def
          declared_roles_def List.map_filter_simps opt_truthy_def add_volume_def
          str_add_def sbind_def bind_def perform_def lift_def role_bind_def role_dir_def
          dest: declared_Some_nonempty)
next
  show "distinct (map fst (declared_roles image_meta))"
    by (rule declared_roles_distinct)
qed

theorem create_volume_containers_by_declaration_witness:
  "create_volume_containers engine_vm1 helpers_example cfg_default vm1 ''app''
     (Some image_plain) (PList []) [] = (Inr False, [])
   \<and> create_volume_containers engine_vm1 helpers_example cfg_default vm1 ''app''
     (Some image_two_volumes) (PList []) []
     = (Inr True,
        [Docker_create_volume_container ''app'' ''vm1_vol'' True [''/var/log/app'', ''/srv'']
           [''/os_docker_volume/log/vm1_10.0.0.2:/var/log/app'',
            ''/os_docker_volume/other/vm1_10.0.0.2:/srv'']])"
  using create_volume_containers_by_declaration
          [of "Some image_plain" engine_vm1 helpers_example cfg_default vm1 "''app''"
              "PList []" "[]" "''10.0.0.2''" PNone]
        create_volume_containers_by_declaration
          [of "Some image_two_volumes" engine_vm1 helpers_example cfg_default vm1 "''app''"
              "PList []" "[]" "''10.0.0.2''" PNone]
  by (simp add: declared_roles_def List.map_filter_simps declared_def image_plain_def
        image_two_volumes_def helpers_example_def engine_vm1_def role_bind_def role_dir_def
        cfg_default_def vm1_def)

lemma rmtree_if_isdir_run:
  assumes "\<forall>h d. env h (Path_isdir d) = Inr (PBool (d \<in> existing))"
    and "\<forall>h d. d \<in> existing \<longrightarrow> env h (Rmtree d) = Inr PNone"
  shows "rmtree_if_isdir env d tr = (Inr (), tr @ probe_and_remove existing d)"
  using assms
  by (simp add: rmtree_if_isdir_def bind_def perform_def return_def probe_and_remove_def)

text \<open>
  C8. When the companion container exists (and the first address is found and the
  engine's remove call returns), volume-container destruction force-removes it with its
  volumes, then probes the log, data and other directories in turn and removes exactly
  those that exist; a directory that does not exist is only probed, and the call
  returns normally. When the companion container does not exist, nothing is done after
  the container listing.
\<close>

theorem destroy_volume_container_removes_existing:
  "(find_first_ip hp instance network_info = Inr (PStr first_ip)
      \<and> exist_container env (inst_name instance @ ''_vol'') tr = (Inr True, tr1)
      \<and> env tr1 (Docker_remove_container (PStr (inst_name instance @ ''_vol'')) True True)
          = Inr reply
      \<and> (\<forall>h d. env h (Path_isdir d) = Inr (PBool (d \<in> existing)))
      \<and> (\<forall>h d. d \<in> existing \<longrightarrow> env h (Rmtree d) = Inr PNone)
      \<longrightarrow>
      destroy_volume_container env hp cfg instance network_info tr
        = (Inr (),
           tr1 @ [Docker_remove_container (PStr (inst_name instance @ ''_vol'')) True True]
               @ probe_and_remove existing (role_dir cfg instance first_ip ''log'')
               @ probe_and_remove existing (role_dir cfg instance first_ip ''data'')
               @ probe_and_remove existing (role_dir cfg instance first_ip ''other'')))
   \<and> (find_first_ip hp instance network_info = Inr ip
      \<and> exist_container env (inst_name instance @ ''_vol'') tr = (Inr False, tr1)
      \<longrightarrow> destroy_volume_container env hp cfg instance network_info tr = (Inr (), tr1))"
proof (intro conjI impI)
  assume a: "find_first_ip hp instance network_info = Inr (PStr first_ip)
      \<and> exist_container env (inst_name instance @ ''_vol'') tr = (Inr True, tr1)
      \<and> env tr1 (Docker_remove_container (PStr (inst_name instance @ ''_vol'')) True True)
          = Inr reply
      \<and> (\<forall>h d. env h (Path_isdir d) = Inr (PBool (d \<in> existing)))
      \<and> (\<forall>h d. d \<in> existing \<longrightarrow> env h (Rmtree d) = Inr PNone)"
  then have run: "\<And>d t. rmtree_if_isdir env d t = (Inr (), t @ probe_and_remove existing d)"
    using rmtree_if_isdir_run [of env existing] by blast
  from a show "destroy_volume_container env hp cfg instance network_info tr
        = (Inr (),
           tr1 @ [Docker_remove_container (PStr (inst_name instance @ ''_vol'')) True True]
               @ probe_and_remove existing (role_dir cfg instance first_ip ''log'')
               @ probe_and_remove existing (role_dir cfg instance first_ip ''data'')
               @ probe_and_remove existing (role_dir cfg instance first_ip ''other''))"
    by (simp add: destroy_volume_container_def Let_def bind_result run str_add_def
          role_dir_def bind_def [of "perform env c" for c] perform_def)
next
  assume "find_first_ip hp instance network_info = Inr ip
      \<and> exist_container env (inst_name instance @ ''_vol'') tr = (Inr False, tr1)"
  then have ip: "find_first_ip hp instance network_info = Inr ip"
    and ex: "exist_container env (inst_name instance @ ''_vol'') tr = (Inr False, tr1)"
    by simp_all
  show "destroy_volume_container env hp cfg instance network_info tr = (Inr (), tr1)"
    using ip ex by (simp add: destroy_volume_container_def Let_def bind_def lift_def return_def)
qed

lemma engine_vm1_vol_exists:
  "exist_container engine_vm1_vol ''vm1_vol'' [] = (Inr True, [Docker_containers None])"
  by (simp add: exist_container_def bind_def perform_def lift_def engine_vm1_vol_def
        stripped_name_def sbind_def py_nth_def)

lemma engine_vm1_no_vol:
  "exist_container engine_vm1 ''vm1_vol'' [] = (Inr False, [Docker_containers None])"
  by (simp add: exist_container_def bind_def perform_def lift_def engine_vm1_def
        stripped_name_def sbind_def py_nth_def)

theorem destroy_volume_container_removes_existing_witness:
  "destroy_volume_container engine_vm1_vol helpers_example cfg_default vm1 (PList []) []
     = (Inr (),
        [Docker_containers None,
         Docker_remove_container (PStr ''vm1_vol'') True True,
         Path_isdir ''/os_docker_volume/log/vm1_10.0.0.2'',
         Rmtree ''/os_docker_volume/log/vm1_10.0.0.2'',
         Path_isdir ''/os_docker_volume/data/vm1_10.0.0.2'',
         Path_isdir ''/os_docker_volume/other/vm1_10.0.0.2''])
   \<and> destroy_volume_container engine_vm1 helpers_example cfg_default vm1 (PList []) []
     = (Inr (), [Docker_containers None])"
  using destroy_volume_container_removes_existing
          [of helpers_example vm1 "PList []" "''10.0.0.2''" engine_vm1_vol "[]"
              "[Docker_containers None]" PNone "{''/os_docker_volume/log/vm1_10.0.0.2''}"
              cfg_default "PStr ''10.0.0.2''"]
        destroy_volume_container_removes_existing
          [of helpers_example vm1 "PList []" "''10.0.0.2''" engine_vm1 "[]"
              "[Docker_containers None]" PNone "{}" cfg_default "PStr ''10.0.0.2''"]
        engine_vm1_vol_exists engine_vm1_no_vol
  by (simp add: helpers_example_def vm1_def cfg_default_def role_dir_def
        probe_and_remove_def engine_vm1_vol_def)

lemma poll_trace_0 [simp]: "poll_trace cid 0 = []"
  by (simp add: poll_trace_def)

lemma poll_trace_Suc:
  "poll_trace cid (Suc k) = [Docker_inspect_container cid, Sleep 1] @ poll_trace cid k"
  by (simp add: poll_trace_def)

lemma length_poll_trace [simp]: "length (poll_trace cid k) = 2 * k"
  by (induction k) (simp_all add: poll_trace_Suc)

text \<open>One turn of the loop.\<close>

lemma find_container_pid_from_turn:
  assumes "n \<le> 15"
  shows "find_container_pid_from env cid n tr =
     (case env tr (Docker_inspect_container cid) of
        Inl e \<Rightarrow> (Inl e, tr @ [Docker_inspect_container cid])
      | Inr info \<Rightarrow>
          (case pid_of info of
             Inl e \<Rightarrow> (Inl e, tr @ [Docker_inspect_container cid])
           | Inr p \<Rightarrow>
               if truthy p then (Inr p, tr @ [Docker_inspect_container cid])
               else find_container_pid_from env cid (n + 1)
                      (tr @ [Docker_inspect_container cid, Sleep 1])))"
  using assms
  by (subst find_container_pid_from.simps)
     (simp add: bind_def perform_def lift_def return_def raise_def sleep_def pid_of_def
        split: sum.splits)

lemma find_container_pid_from_stop:
  "n > 15 \<Longrightarrow> find_container_pid_from env cid n tr = (Inr PNone, tr)"
  by (subst find_container_pid_from.simps) (simp add: return_def)

lemma find_container_pid_from_found:
  "n + k \<le> 15 \<Longrightarrow>
   \<forall>i<k. no_pid_yet (env (tr @ poll_trace cid i) (Docker_inspect_container cid)) \<Longrightarrow>
   has_pid (env (tr @ poll_trace cid k) (Docker_inspect_container cid)) p \<Longrightarrow>
   find_container_pid_from env cid n tr
     = (Inr p, tr @ poll_trace cid k @ [Docker_inspect_container cid])"
proof (induction k arbitrary: n tr)
  case 0
  then show ?case
    by (auto simp: find_container_pid_from_turn has_pid_def split: sum.splits)
next
  case (Suc k)
  let ?tr = "tr @ [Docker_inspect_container cid, Sleep 1]"
  from Suc.prems(2) have first: "no_pid_yet (env tr (Docker_inspect_container cid))"
    by (metis append_Nil2 poll_trace_0 zero_less_Suc)
  have rest: "\<forall>i<k. no_pid_yet (env (?tr @ poll_trace cid i) (Docker_inspect_container cid))"
    using Suc.prems(2) by (auto simp: poll_trace_Suc dest: Suc_mono)
  have last: "has_pid (env (?tr @ poll_trace cid k) (Docker_inspect_container cid)) p"
    using Suc.prems(3) by (simp add: poll_trace_Suc)
  have n: "n \<le> 15" "(n + 1) + k \<le> 15" using Suc.prems(1) by simp_all
  have "find_container_pid_from env cid n tr = find_container_pid_from env cid (n + 1) ?tr"
    using first n(1)
    by (auto simp: find_container_pid_from_turn no_pid_yet_def split: sum.splits)
  also have "\<dots> = (Inr p, ?tr @ poll_trace cid k @ [Docker_inspect_container cid])"
    using Suc.IH [OF n(2) rest last] .
  finally show ?case by (simp add: poll_trace_Suc)
qed

lemma find_container_pid_from_never:
  "16 - n = k \<Longrightarrow>
   \<forall>i<k. no_pid_yet (env (tr @ poll_trace cid i) (Docker_inspect_container cid)) \<Longrightarrow>
   find_container_pid_from env cid n tr = (Inr PNone, tr @ poll_trace cid k)"
proof (induction k arbitrary: n tr)
  case 0
  then show ?case by (simp add: find_container_pid_from_stop)
next
  case (Suc k)
  let ?tr = "tr @ [Docker_inspect_container cid, Sleep 1]"
  from Suc.prems(2) have first: "no_pid_yet (env tr (Docker_inspect_container cid))"
    by (metis append_Nil2 poll_trace_0 zero_less_Suc)
  have rest: "\<forall>i<k. no_pid_yet (env (?tr @ poll_trace cid i) (Docker_inspect_container cid))"
    using Suc.prems(2) by (auto simp: poll_trace_Suc dest: Suc_mono)
  have n: "n \<le> 15" "16 - (n + 1) = k" using Suc.prems(1) by simp_all
  have "find_container_pid_from env cid n tr = find_container_pid_from env cid (n + 1) ?tr"
    using first n(1)
    by (auto simp: find_container_pid_from_turn no_pid_yet_def split: sum.splits)
  also have "\<dots> = (Inr PNone, ?tr @ poll_trace cid k)"
    using Suc.IH [OF n(2) rest] .
  finally show ?case by (simp add: poll_trace_Suc)
qed

text \<open>Whatever the engine answers, the loop ends within sixteen polls.\<close>

lemma find_container_pid_from_bounded:
  "16 - n = k \<Longrightarrow> find_container_pid_from env cid n tr = (r, tr') \<Longrightarrow>
   (\<exists>j\<le>k. tr' = tr @ poll_trace cid j
          \<or> (j < k \<and> tr' = tr @ poll_trace cid j @ [Docker_inspect_container cid]))
   \<and> (\<forall>p. r = Inr p \<longrightarrow> truthy p \<or> p = PNone)"
proof (induction k arbitrary: n tr)
  case 0
  then show ?case by (auto simp: find_container_pid_from_stop)
next
  case (Suc k)
  let ?i = "Docker_inspect_container cid"
  let ?tr = "tr @ [?i, Sleep 1]"
  have n: "n \<le> 15" "16 - (n + 1) = k" using Suc.prems(1) by simp_all
  have turn: "find_container_pid_from env cid n tr = (r, tr')" by (rule Suc.prems(2))
  have "(tr' = tr @ [?i] \<and> (\<forall>p. r = Inr p \<longrightarrow> truthy p))
        \<or> find_container_pid_from env cid (n + 1) ?tr = (r, tr')"
  proof (cases "env tr ?i")
    case (Inl e)
    with turn n(1) show ?thesis by (auto simp: find_container_pid_from_turn)
  next
    case (Inr info)
    show ?thesis
    proof (cases "pid_of info")
      case (Inl e)
      with Inr turn n(1) show ?thesis by (auto simp: find_container_pid_from_turn)
    next
      case p: (Inr p)
      with Inr turn n(1) show ?thesis
        by (cases "truthy p") (auto simp: find_container_pid_from_turn)
    qed
  qed
  then consider (leave) "tr' = tr @ [?i]" "\<forall>p. r = Inr p \<longrightarrow> truthy p"
    | (again) "find_container_pid_from env cid (n + 1) ?tr = (r, tr')"
    by blast
  then show ?case
  proof cases
    case leave
    then have "0 < Suc k \<and> tr' = tr @ poll_trace cid 0 @ [?i]" by simp
    with leave(2) show ?thesis by blast
  next
    case again
    from Suc.IH [OF n(2) again] obtain j where
      j: "j \<le> k" "tr' = ?tr @ poll_trace cid j
                  \<or> (j < k \<and> tr' = ?tr @ poll_trace cid j @ [?i])"
      and p: "\<forall>p. r = Inr p \<longrightarrow> truthy p \<or> p = PNone" by blast
    from j have "Suc j \<le> Suc k \<and> (tr' = tr @ poll_trace cid (Suc j)
                  \<or> (Suc j < Suc k \<and> tr' = tr @ poll_trace cid (Suc j) @ [?i]))"
      by (auto simp: poll_trace_Suc)
    with p show ?thesis by blast
  qed
qed
lemma attach_vifs_no_pid:
  assumes "truthy network_info"
    and "get_container_id env instance tr = (Inr cid, tr1)"
    and "truthy cid"
    and "env tr1 (Path_exists ''/var/run/netns'') = Inr ex"
    and "truthy ex \<or> env (tr1 @ [Path_exists ''/var/run/netns''])
                        (Execute [Lit ''mkdir'', Lit ''-p'', Lit ''/var/run/netns'']) = Inr v"
    and "find_container_pid env cid (tr1 @ netns_dir_calls (truthy ex)) = (Inr pid, tr2)"
    and "\<not> truthy pid"
  shows "attach_vifs env instance network_info tr
           = (Inl (RuntimeError (FmtVal cannot_find_pid cid)), tr2)"
proof (cases "truthy ex")
  case True
  with assms show ?thesis
    by (simp add: attach_vifs_def bind_def perform_def return_def raise_def
          netns_dir_calls_def)
next
  case False
  with assms show ?thesis
    by (simp add: attach_vifs_def bind_def perform_def return_def raise_def
          netns_dir_calls_def)
qed

text \<open>
  C9. The process-id poll of \<open>find_container_pid\<close> always ends: whatever the engine
  answers, at most sixteen inspect calls are made, one second of sleep after each
  unsuccessful one, and nothing else; what it returns is a non-zero process id or
  nothing. It returns the process id at the first poll that shows one, without sleeping
  again; after sixteen polls without one it returns nothing. When it returns nothing,
  \<open>attach_vifs\<close> raises \<^verbatim>\<open>RuntimeError\<close> naming the container, and makes no further
  call.
\<close>

theorem pid_discovery_bounded:
  "(\<exists>j\<le>16. snd (find_container_pid env cid tr) = tr @ poll_trace cid j
           \<or> (j < 16 \<and> snd (find_container_pid env cid tr)
                         = tr @ poll_trace cid j @ [Docker_inspect_container cid]))
   \<and> (\<forall>p. fst (find_container_pid env cid tr) = Inr p \<longrightarrow> truthy p \<or> p = PNone)
   \<and> (k \<le> 15
      \<and> (\<forall>i<k. no_pid_yet (env (tr @ poll_trace cid i) (Docker_inspect_container cid)))
      \<and> has_pid (env (tr @ poll_trace cid k) (Docker_inspect_container cid)) p
      \<longrightarrow> find_container_pid env cid tr
            = (Inr p, tr @ poll_trace cid k @ [Docker_inspect_container cid]))
   \<and> ((\<forall>i<16. no_pid_yet (env (tr @ poll_trace cid i) (Docker_inspect_container cid)))
      \<longrightarrow> find_container_pid env cid tr = (Inr PNone, tr @ poll_trace cid 16))
   \<and> (truthy network_info
      \<and> get_container_id env instance tr0 = (Inr cid, tr1)
      \<and> truthy cid
      \<and> env tr1 (Path_exists ''/var/run/netns'') = Inr ex
      \<and> (truthy ex \<or> env (tr1 @ [Path_exists ''/var/run/netns''])
                         (Execute [Lit ''mkdir'', Lit ''-p'', Lit ''/var/run/netns'']) = Inr v)
      \<and> find_container_pid env cid (tr1 @ netns_dir_calls (truthy ex)) = (Inr pid, tr2)
      \<and> \<not> truthy pid
      \<longrightarrow> attach_vifs env instance network_info tr0
            = (Inl (RuntimeError (FmtVal cannot_find_pid cid)), tr2))"
proof (intro conjI impI)
  obtain r tr' where run: "find_container_pid_from env cid 0 tr = (r, tr')"
    by (cases "find_container_pid_from env cid 0 tr") auto
  have b: "(\<exists>j\<le>16. tr' = tr @ poll_trace cid j
              \<or> (j < 16 \<and> tr' = tr @ poll_trace cid j @ [Docker_inspect_container cid]))
           \<and> (\<forall>p. r = Inr p \<longrightarrow> truthy p \<or> p = PNone)"
    using find_container_pid_from_bounded [OF _ run, of 16] by simp
  from b run
  show "\<exists>j\<le>16. snd (find_container_pid env cid tr) = tr @ poll_trace cid j
           \<or> (j < 16 \<and> snd (find_container_pid env cid tr)
                         = tr @ poll_trace cid j @ [Docker_inspect_container cid])"
    by (simp add: find_container_pid_def)
  from b run
  show "\<forall>p. fst (find_container_pid env cid tr) = Inr p \<longrightarrow> truthy p \<or> p = PNone"
    by (simp add: find_container_pid_def)
next
  assume "k \<le> 15
      \<and> (\<forall>i<k. no_pid_yet (env (tr @ poll_trace cid i) (Docker_inspect_container cid)))
      \<and> has_pid (env (tr @ poll_trace cid k) (Docker_inspect_container cid)) p"
  then show "find_container_pid env cid tr
            = (Inr p, tr @ poll_trace cid k @ [Docker_inspect_container cid])"
    using find_container_pid_from_found [of 0 k env tr cid p]
    by (simp add: find_container_pid_def)
next
  assume "\<forall>i<16. no_pid_yet (env (tr @ poll_trace cid i) (Docker_inspect_container cid))"
  then show "find_container_pid env cid tr = (Inr PNone, tr @ poll_trace cid 16)"
    using find_container_pid_from_never [of 0 16 env tr cid]
    by (simp add: find_container_pid_def)
next
  assume "truthy network_info
      \<and> get_container_id env instance tr0 = (Inr cid, tr1)
      \<and> truthy cid
      \<and> env tr1 (Path_exists ''/var/run/netns'') = Inr ex
      \<and> (truthy ex \<or> env (tr1 @ [Path_exists ''/var/run/netns''])
                         (Execute [Lit ''mkdir'', Lit ''-p'', Lit ''/var/run/netns'']) = Inr v)
      \<and> find_container_pid env cid (tr1 @ netns_dir_calls (truthy ex)) = (Inr pid, tr2)
      \<and> \<not> truthy pid"
  then show "attach_vifs env instance network_info tr0
            = (Inl (RuntimeError (FmtVal cannot_find_pid cid)), tr2)"
    using attach_vifs_no_pid [of network_info env "instance" tr0 cid tr1 ex v pid tr2]
    by blast
qed

lemma engine_pid_after_waits:
  "\<forall>i<2. no_pid_yet (engine_pid_after 4 ([] @ poll_trace (PStr ''abc'') i)
                       (Docker_inspect_container (PStr ''abc'')))"
  by (auto simp: engine_pid_after_def no_pid_yet_def pid_of_def sbind_def)

lemma engine_pid_after_shows:
  "has_pid (engine_pid_after 4 ([] @ poll_trace (PStr ''abc'') 2)
              (Docker_inspect_container (PStr ''abc''))) (PInt 4242)"
  by (simp add: engine_pid_after_def has_pid_def pid_of_def sbind_def)

lemma engine_no_pid_never:
  "\<forall>i<16. no_pid_yet (engine_no_pid (tr @ poll_trace (PStr ''abc'') i)
                        (Docker_inspect_container (PStr ''abc'')))"
  by (simp add: engine_no_pid_def no_pid_yet_def pid_of_def sbind_def)

lemma engine_no_pid_id:
  "get_container_id engine_no_pid vm1 []
     = (Inr (PStr ''abc''),
        [Docker_containers (Some ''vm1''), Docker_inspect_container (PStr ''abc'')])"
  by (simp add: get_container_id_def find_container_by_name_def catch_def bind_def perform_def
        lift_def return_def engine_no_pid_def stripped_name_def sbind_def py_nth_def vm1_def)

theorem pid_discovery_bounded_witness:
  "find_container_pid (engine_pid_after 4) (PStr ''abc'') []
     = (Inr (PInt 4242),
        poll_trace (PStr ''abc'') 2 @ [Docker_inspect_container (PStr ''abc'')])
   \<and> find_container_pid engine_no_pid (PStr ''abc'')
        [Docker_containers (Some ''vm1''), Docker_inspect_container (PStr ''abc''),
         Path_exists ''/var/run/netns'']
     = (Inr PNone,
        [Docker_containers (Some ''vm1''), Docker_inspect_container (PStr ''abc''),
         Path_exists ''/var/run/netns''] @ poll_trace (PStr ''abc'') 16)
   \<and> attach_vifs engine_no_pid vm1 (PList [PStr ''vif0'']) []
     = (Inl (RuntimeError (FmtVal cannot_find_pid (PStr ''abc''))),
        [Docker_containers (Some ''vm1''), Docker_inspect_container (PStr ''abc''),
         Path_exists ''/var/run/netns''] @ poll_trace (PStr ''abc'') 16)"
proof -
  let ?t1 = "[Docker_containers (Some ''vm1''), Docker_inspect_container (PStr ''abc'')]"
  let ?t2 = "?t1 @ [Path_exists ''/var/run/netns'']"
  have a: "find_container_pid (engine_pid_after 4) (PStr ''abc'') []
     = (Inr (PInt 4242),
        poll_trace (PStr ''abc'') 2 @ [Docker_inspect_container (PStr ''abc'')])"
    using pid_discovery_bounded [of "engine_pid_after 4" "PStr ''abc''" "[]" 2 "PInt 4242"]
      engine_pid_after_waits engine_pid_after_shows
    by simp
  have b: "find_container_pid engine_no_pid (PStr ''abc'') ?t2
             = (Inr PNone, ?t2 @ poll_trace (PStr ''abc'') 16)"
    using pid_discovery_bounded [of engine_no_pid "PStr ''abc''" "?t2"]
      engine_no_pid_never [of "?t2"]
    by simp
  have ex: "engine_no_pid ?t1 (Path_exists ''/var/run/netns'') = Inr (PBool True)"
    by (simp add: engine_no_pid_def)
  have c: "attach_vifs engine_no_pid vm1 (PList [PStr ''vif0'']) []
     = (Inl (RuntimeError (FmtVal cannot_find_pid (PStr ''abc''))),
        ?t2 @ poll_trace (PStr ''abc'') 16)"
    using pid_discovery_bounded [of engine_no_pid "PStr ''abc''" "[]" 0 PNone
            "PList [PStr ''vif0'']" vm1 "[]" "?t1" "PBool True" PNone PNone
            "?t2 @ poll_trace (PStr ''abc'') 16"]
      engine_no_pid_id ex b
    by (simp add: netns_dir_calls_def)
  from a b c show ?thesis by simp
qed

lemma only_return [simp]: "only P (return x)"
  by (simp add: only_def return_def)

lemma only_raise [simp]: "only P (raise e)"
  by (simp add: only_def raise_def)

lemma only_lift [simp]: "only P (lift r)"
  by (simp add: only_def lift_def)

lemma only_sleep: "P (Sleep s) \<Longrightarrow> only P (sleep s)"
  by (simp add: only_def sleep_def)

lemma only_perform: "P c \<Longrightarrow> only P (perform env c)"
  by (simp add: only_def perform_def)

lemma only_bind:
  assumes "only P m" and "\<And>x. only P (f x)"
  shows "only P (bind m f)"
  unfolding only_def
proof (intro allI impI)
  fix tr r tr'
  assume run: "bind m f tr = (r, tr')"
  obtain r1 tr1 where m: "m tr = (r1, tr1)" by (cases "m tr") auto
  from assms(1) m obtain e1 where e1: "tr1 = tr @ e1" "\<forall>c \<in> set e1. P c"
    unfolding only_def by blast
  show "\<exists>ext. tr' = tr @ ext \<and> (\<forall>c \<in> set ext. P c)"
  proof (cases r1)
    case (Inl e)
    with run m have "tr' = tr1" by (simp add: bind_def)
    with e1 show ?thesis by blast
  next
    case (Inr x)
    with run m have "f x tr1 = (r, tr')" by (simp add: bind_def)
    with assms(2) [of x] obtain e2 where "tr' = tr1 @ e2" "\<forall>c \<in> set e2. P c"
      unfolding only_def by blast
    with e1 have "tr' = tr @ (e1 @ e2) \<and> (\<forall>c \<in> set (e1 @ e2). P c)" by auto
    then show ?thesis by blast
  qed
qed

lemma only_catch:
  assumes "only P m" and "\<And>e. only P (h e)"
  shows "only P (catch m h)"
  unfolding only_def
proof (intro allI impI)
  fix tr r tr'
  assume run: "catch m h tr = (r, tr')"
  obtain r1 tr1 where m: "m tr = (r1, tr1)" by (cases "m tr") auto
  from assms(1) m obtain e1 where e1: "tr1 = tr @ e1" "\<forall>c \<in> set e1. P c"
    unfolding only_def by blast
  show "\<exists>ext. tr' = tr @ ext \<and> (\<forall>c \<in> set ext. P c)"
  proof (cases r1)
    case (Inr x)
    with run m have "tr' = tr1" by (simp add: catch_def)
    with e1 show ?thesis by blast
  next
    case (Inl e)
    with run m have "h e tr1 = (r, tr')" by (simp add: catch_def)
    with assms(2) [of e] obtain e2 where "tr' = tr1 @ e2" "\<forall>c \<in> set e2. P c"
      unfolding only_def by blast
    with e1 have "tr' = tr @ (e1 @ e2) \<and> (\<forall>c \<in> set (e1 @ e2). P c)" by auto
    then show ?thesis by blast
  qed
qed

lemma only_weaken: "only P m \<Longrightarrow> (\<And>c. P c \<Longrightarrow> Q c) \<Longrightarrow> only Q m"
  unfolding only_def by blast

lemma only_plug_loop: "only (\<lambda>c. \<not> engine_mutation c) (plug_loop env i vifs)"
  by (induction vifs) (auto intro!: only_bind only_perform)

lemma only_attach_loop: "only (\<lambda>c. \<not> engine_mutation c) (attach_loop env i cid vifs)"
  by (induction vifs) (auto intro!: only_bind only_perform)

lemma only_get_container_id: "only lookup_call (get_container_id env i)"
  unfolding only_def using get_container_id_trace by blast

lemma quiet_get_container_id:
  "only (\<lambda>c. \<not> engine_mutation c) (get_container_id env i)"
  by (rule only_weaken [OF only_get_container_id]) (rule lookup_not_mutation)

lemma only_find_container_pid:
  "only (\<lambda>c. \<not> engine_mutation c) (find_container_pid env cid)"
  unfolding only_def
proof (intro allI impI)
  fix tr r tr'
  assume "find_container_pid env cid tr = (r, tr')"
  then have run: "find_container_pid_from env cid 0 tr = (r, tr')"
    by (simp add: find_container_pid_def)
  have p: "\<forall>c \<in> set (poll_trace cid j). \<not> engine_mutation c" for j
    by (induction j) (auto simp: poll_trace_Suc)
  from find_container_pid_from_bounded [OF _ run, of 16] obtain j where
    "tr' = tr @ poll_trace cid j
     \<or> tr' = tr @ (poll_trace cid j @ [Docker_inspect_container cid])"
    by auto
  then show "\<exists>ext. tr' = tr @ ext \<and> (\<forall>c \<in> set ext. \<not> engine_mutation c)"
  proof
    assume "tr' = tr @ poll_trace cid j"
    with p [of j] show ?thesis by blast
  next
    assume t: "tr' = tr @ (poll_trace cid j @ [Docker_inspect_container cid])"
    have "\<forall>c \<in> set (poll_trace cid j @ [Docker_inspect_container cid]). \<not> engine_mutation c"
      using p [of j] by auto
    with t show ?thesis by blast
  qed
qed

text \<open>Plugging and attaching the interfaces changes no container and no image.\<close>

lemma only_network_step:
  "only (\<lambda>c. \<not> engine_mutation c)
     (bind (plug_vifs env i network_info) (\<lambda>_. attach_vifs env i network_info))"
  unfolding plug_vifs_def attach_vifs_def
  by (auto intro!: only_bind only_perform only_plug_loop only_attach_loop
        only_find_container_pid quiet_get_container_id)
lemma start_container_until_network:
  assumes "find_dns hp network_info = Inr dns"
    and "get_cpu_set env cfg i tr = (Inr cpuset, tr1)"
    and "exist_container env (inst_name i @ ''_vol'') tr1 = (Inr ex, tr2)"
    and "env tr2 (start_call cfg i cid dns cpuset ex) = Inr reply"
    and "truthy network_info"
  shows "start_container env hp cfg cid i network_info tr
           = catch
               (bind (plug_vifs env i network_info) (\<lambda>_. attach_vifs env i network_info))
               (\<lambda>e. bind (perform env (Docker_kill cid)) (\<lambda>_.
                      raise (InstanceDeployFailure (FmtExc ''Cannot setup network: {0}'' e)
                               (inst_name i))))
               (tr2 @ [start_call cfg i cid dns cpuset ex])"
  using assms
  by (simp add: start_container_def Let_def bind_def [of "get_cpu_set env cfg i"]
        bind_def [of "exist_container env n" for n] bind_def [of "perform env c" for c]
        perform_def start_call_def)

text \<open>
  A start where the container was started and the plugging and attaching of the
  interfaces then raises \<open>e\<close>, and where the engine's kill returns: between the start
  call and the failure no call changes a container or an image; the next and last call
  is the kill of that container; and what is raised is \<open>InstanceDeployFailure\<close> with the
  instance's name, its message being the template \<^verbatim>\<open>Cannot setup network: {0}\<close> filled
  with \<open>e\<close>. The container is not removed.
\<close>

lemma start_container_kill_returns:
  assumes "find_dns hp network_info = Inr dns"
    and "get_cpu_set env cfg i tr = (Inr cpuset, tr1)"
    and "exist_container env (inst_name i @ ''_vol'') tr1 = (Inr ex, tr2)"
    and "env tr2 (start_call cfg i cid dns cpuset ex) = Inr reply"
    and "truthy network_info"
    and "bind (plug_vifs env i network_info) (\<lambda>_. attach_vifs env i network_info)
           (tr2 @ [start_call cfg i cid dns cpuset ex]) = (Inl e, tr3)"
    and "env tr3 (Docker_kill cid) = Inr killed"
  shows "start_container env hp cfg cid i network_info tr
           = (Inl (InstanceDeployFailure (FmtExc ''Cannot setup network: {0}'' e)
                     (inst_name i)),
              tr3 @ [Docker_kill cid])
         \<and> (\<exists>ext. tr3 = tr2 @ [start_call cfg i cid dns cpuset ex] @ ext
                  \<and> (\<forall>c \<in> set ext. \<not> engine_mutation c))"
proof
  show "start_container env hp cfg cid i network_info tr
           = (Inl (InstanceDeployFailure (FmtExc ''Cannot setup network: {0}'' e)
                     (inst_name i)),
              tr3 @ [Docker_kill cid])"
    using assms(6,7)
    by (simp add: start_container_until_network [OF assms(1-5)] catch_def bind_def
          perform_def raise_def)
next
  from only_network_step [of env i network_info] assms(6)
  obtain ext where "tr3 = (tr2 @ [start_call cfg i cid dns cpuset ex]) @ ext"
    "\<forall>c \<in> set ext. \<not> engine_mutation c"
    unfolding only_def by blast
  then show "\<exists>ext. tr3 = tr2 @ [start_call cfg i cid dns cpuset ex] @ ext
                  \<and> (\<forall>c \<in> set ext. \<not> engine_mutation c)"
    by auto
qed

text \<open>
  When the kill itself raises, its error is what comes out; the kill call is made all the
  same.
\<close>

lemma network_failure_kill_raises:
  assumes "find_dns hp network_info = Inr dns"
    and "get_cpu_set env cfg i tr = (Inr cpuset, tr1)"
    and "exist_container env (inst_name i @ ''_vol'') tr1 = (Inr ex, tr2)"
    and "env tr2 (start_call cfg i cid dns cpuset ex) = Inr reply"
    and "truthy network_info"
    and "bind (plug_vifs env i network_info) (\<lambda>_. attach_vifs env i network_info)
           (tr2 @ [start_call cfg i cid dns cpuset ex]) = (Inl e, tr3)"
    and "env tr3 (Docker_kill cid) = Inl k"
  shows "start_container env hp cfg cid i network_info tr = (Inl k, tr3 @ [Docker_kill cid])"
  using assms(6,7)
  by (simp add: start_container_until_network [OF assms(1-5)] catch_def bind_def
        perform_def raise_def)

lemma engine_attach_fails_network_step:
  "bind (plug_vifs engine_attach_fails vm1 (PList [PStr ''vif0'']))
        (\<lambda>_. attach_vifs engine_attach_fails vm1 (PList [PStr ''vif0'']))
     ([Docker_containers None]
      @ [start_call cfg_default vm1 (PStr ''abc'') [''8.8.8.8''] PNone False])
   = (Inl (ExecutionError ''ip link''),
      [Docker_containers None,
       start_call cfg_default vm1 (PStr ''abc'') [''8.8.8.8''] PNone False,
       Vif_plug ''vm1'' (PStr ''vif0''),
       Docker_containers (Some ''vm1''), Docker_inspect_container (PStr ''abc''),
       Path_exists ''/var/run/netns'',
       Docker_inspect_container (PStr ''abc''),
       Execute [Lit ''ln'', Lit ''-sf'', FmtVal ''/proc/{0}/ns/net'' (PInt 4242),
                FmtVal ''/var/run/netns/{0}'' (PStr ''abc'')],
       Execute [Lit ''ip'', Lit ''netns'', Lit ''exec'', Raw (PStr ''abc''), Lit ''ip'',
                Lit ''link'', Lit ''set'', Lit ''lo'', Lit ''up''],
       Vif_attach ''vm1'' (PStr ''vif0'') (PStr ''abc'')])"
  by (simp add: plug_vifs_def attach_vifs_def get_container_id_def
        find_container_by_name_def find_container_pid_def find_container_pid_from_turn
        pid_of_def path_join_def catch_def bind_def perform_def lift_def return_def raise_def
        engine_attach_fails_def failing_at_def engine_vm1_def stripped_name_def sbind_def
        py_nth_def vm1_def start_call_def)

lemma start_container_kill_returns_example:
  "start_container engine_attach_fails helpers_example cfg_default (PStr ''abc'') vm1
     (PList [PStr ''vif0'']) []
   = (Inl (InstanceDeployFailure
             (FmtExc ''Cannot setup network: {0}'' (ExecutionError ''ip link'')) ''vm1''),
      [Docker_containers None,
       start_call cfg_default vm1 (PStr ''abc'') [''8.8.8.8''] PNone False,
       Vif_plug ''vm1'' (PStr ''vif0''),
       Docker_containers (Some ''vm1''), Docker_inspect_container (PStr ''abc''),
       Path_exists ''/var/run/netns'',
       Docker_inspect_container (PStr ''abc''),
       Execute [Lit ''ln'', Lit ''-sf'', FmtVal ''/proc/{0}/ns/net'' (PInt 4242),
                FmtVal ''/var/run/netns/{0}'' (PStr ''abc'')],
       Execute [Lit ''ip'', Lit ''netns'', Lit ''exec'', Raw (PStr ''abc''), Lit ''ip'',
                Lit ''link'', Lit ''set'', Lit ''lo'', Lit ''up''],
       Vif_attach ''vm1'' (PStr ''vif0'') (PStr ''abc''),
       Docker_kill (PStr ''abc'')])"
proof -
  have dns: "find_dns helpers_example (PList [PStr ''vif0'']) = Inr [''8.8.8.8'']"
    by (simp add: helpers_example_def)
  have cpuset: "get_cpu_set engine_attach_fails cfg_default vm1 [] = (Inr PNone, [])"
    by (simp add: get_cpu_set_def cfg_default_def return_def)
  have vol: "exist_container engine_attach_fails (inst_name vm1 @ ''_vol'') []
               = (Inr False, [Docker_containers None])"
    by (simp add: exist_container_def bind_def perform_def lift_def engine_attach_fails_def
          failing_at_def engine_vm1_def stripped_name_def sbind_def py_nth_def vm1_def)
  have started: "engine_attach_fails [Docker_containers None]
                   (start_call cfg_default vm1 (PStr ''abc'') [''8.8.8.8''] PNone False)
                 = Inr PNone"
    by (simp add: engine_attach_fails_def failing_at_def engine_vm1_def start_call_def)
  have ni: "truthy (PList [PStr ''vif0''])" by simp
  have killed: "engine_attach_fails tr3 (Docker_kill (PStr ''abc'')) = Inr PNone" for tr3
    by (simp add: engine_attach_fails_def failing_at_def engine_vm1_def)
  from start_container_kill_returns
         [OF dns cpuset vol started ni engine_attach_fails_network_step killed]
  show ?thesis by (simp add: vm1_def)
qed

lemma engine_exited_network_step:
  "bind (plug_vifs engine_exited vm1 (PList [PStr ''vif0'']))
        (\<lambda>_. attach_vifs engine_exited vm1 (PList [PStr ''vif0'']))
     ([Docker_containers None]
      @ [start_call cfg_default vm1 (PStr ''abc'') [''8.8.8.8''] PNone False])
   = (Inl (RuntimeError (FmtVal cannot_find_pid (PStr ''abc''))),
      [Docker_containers None,
       start_call cfg_default vm1 (PStr ''abc'') [''8.8.8.8''] PNone False,
       Vif_plug ''vm1'' (PStr ''vif0''),
       Docker_containers (Some ''vm1''), Docker_inspect_container (PStr ''abc''),
       Path_exists ''/var/run/netns''] @ poll_trace (PStr ''abc'') 16)"
proof -
  let ?t0 = "[Docker_containers None,
              start_call cfg_default vm1 (PStr ''abc'') [''8.8.8.8''] PNone False,
              Vif_plug ''vm1'' (PStr ''vif0'')]"
  let ?t1 = "?t0 @ [Docker_containers (Some ''vm1''), Docker_inspect_container (PStr ''abc'')]"
  let ?t2 = "?t1 @ [Path_exists ''/var/run/netns'']"
  have plug: "plug_vifs engine_exited vm1 (PList [PStr ''vif0''])
                ([Docker_containers None]
                 @ [start_call cfg_default vm1 (PStr ''abc'') [''8.8.8.8''] PNone False])
              = (Inr (), ?t0)"
    by (simp add: plug_vifs_def bind_def perform_def return_def engine_exited_def
          failing_at_def engine_no_pid_def vm1_def)
  have cid: "get_container_id engine_exited vm1 ?t0 = (Inr (PStr ''abc''), ?t1)"
    by (simp add: get_container_id_def find_container_by_name_def catch_def bind_def
          perform_def lift_def return_def engine_exited_def failing_at_def engine_no_pid_def
          stripped_name_def sbind_def py_nth_def vm1_def)
  have ex: "engine_exited ?t1 (Path_exists ''/var/run/netns'') = Inr (PBool True)"
    by (simp add: engine_exited_def failing_at_def engine_no_pid_def)
  have never: "\<forall>i<16. no_pid_yet (engine_exited (?t2 @ poll_trace (PStr ''abc'') i)
                                  (Docker_inspect_container (PStr ''abc'')))"
    by (simp add: engine_exited_def failing_at_def engine_no_pid_def no_pid_yet_def
          pid_of_def sbind_def)
  have pid: "find_container_pid engine_exited (PStr ''abc'')
               (?t1 @ netns_dir_calls (truthy (PBool True)))
             = (Inr PNone, ?t2 @ poll_trace (PStr ''abc'') 16)"
    using find_container_pid_from_never [of 0 16 engine_exited ?t2 "PStr ''abc''"] never
    by (simp add: find_container_pid_def netns_dir_calls_def)
  have att: "attach_vifs engine_exited vm1 (PList [PStr ''vif0'']) ?t0
               = (Inl (RuntimeError (FmtVal cannot_find_pid (PStr ''abc''))),
                  ?t2 @ poll_trace (PStr ''abc'') 16)"
    by (rule attach_vifs_no_pid [OF _ cid _ ex _ pid]) simp_all
  show ?thesis
    using plug att by (simp add: bind_def)
qed

text \<open>
  C4, at a failing input. Container \<^verbatim>\<open>abc\<close> of \<^verbatim>\<open>vm1\<close> is started, its process
  exits at once, so that the attachment of the interfaces raises \<^verbatim>\<open>RuntimeError\<close>
  after sixteen polls; the handler's kill is then refused by the engine with an error
  500. What the caller gets is that engine error: not an \<open>InstanceDeployFailure\<close>, no
  instance name, and the \<^verbatim>\<open>RuntimeError\<close> is lost. The kill was the last call made.
\<close>

theorem network_failure_kill_error_surfaces:
  "start_container engine_exited helpers_example cfg_default (PStr ''abc'') vm1
     (PList [PStr ''vif0'']) []
   = (Inl (APIError 500 ''Container abc is not running''),
      [Docker_containers None,
       start_call cfg_default vm1 (PStr ''abc'') [''8.8.8.8''] PNone False,
       Vif_plug ''vm1'' (PStr ''vif0''),
       Docker_containers (Some ''vm1''), Docker_inspect_container (PStr ''abc''),
       Path_exists ''/var/run/netns''] @ poll_trace (PStr ''abc'') 16
      @ [Docker_kill (PStr ''abc'')])"
proof -
  have dns: "find_dns helpers_example (PList [PStr ''vif0'']) = Inr [''8.8.8.8'']"
    by (simp add: helpers_example_def)
  have cpuset: "get_cpu_set engine_exited cfg_default vm1 [] = (Inr PNone, [])"
    by (simp add: get_cpu_set_def cfg_default_def return_def)
  have vol: "exist_container engine_exited (inst_name vm1 @ ''_vol'') []
               = (Inr False, [Docker_containers None])"
    by (simp add: exist_container_def bind_def perform_def lift_def engine_exited_def
          failing_at_def engine_no_pid_def stripped_name_def sbind_def py_nth_def vm1_def)
  have started: "engine_exited [Docker_containers None]
                   (start_call cfg_default vm1 (PStr ''abc'') [''8.8.8.8''] PNone False)
                 = Inr PNone"
    by (simp add: engine_exited_def failing_at_def engine_no_pid_def start_call_def)
  have ni: "truthy (PList [PStr ''vif0''])" by simp
  have refused: "engine_exited tr3 (Docker_kill (PStr ''abc''))
                   = Inl (APIError 500 ''Container abc is not running'')" for tr3
    by (simp add: engine_exited_def failing_at_def)
  from network_failure_kill_raises
         [OF dns cpuset vol started ni engine_exited_network_step refused]
  show ?thesis by simp
qed

end
